theory Spec2Isabelle
  imports Complex_Main
begin

section \<open>JavaScript computations: exceptions, promises and \<open>await\<close>\<close>

text \<open>
  The configurator is single-threaded JavaScript. A function body runs without interruption
  until it reaches an \<open>await\<close>; there it hands control back and is resumed in a later tick of
  the event loop. A computation is therefore a function from the state in which it is called
  to the state its synchronous prefix leaves behind, together with the promise for the rest:
  either settled (fulfilled with a value or rejected with an exception) or pending, in which
  case the next tick is again such a function. An exception thrown anywhere in a body is a
  rejection of its promise.
\<close>

datatype error = TypeError string | Error string

datatype 'a outcome = Fulfilled 'a | Rejected error

datatype ('s, 'a) promise =
    Settled "'a outcome"
  | Pending "'s \<Rightarrow> 's \<times> ('s, 'a) promise"

type_synonym ('s, 'a) async = "'s \<Rightarrow> 's \<times> ('s, 'a) promise"

definition areturn :: "'a \<Rightarrow> ('s, 'a) async" where
  "areturn v s = (s, Settled (Fulfilled v))"

definition athrow :: "error \<Rightarrow> ('s, 'a) async" where
  "athrow e s = (s, Settled (Rejected e))"

definition gets :: "('s \<Rightarrow> 'a) \<Rightarrow> ('s, 'a) async" where
  "gets f s = (s, Settled (Fulfilled (f s)))"

definition modify :: "('s \<Rightarrow> 's) \<Rightarrow> ('s, unit) async" where
  "modify f s = (f s, Settled (Fulfilled ()))"

text \<open>Statement sequencing: the continuation runs in the tick in which the first part settles.\<close>

primrec pbind :: "('s, 'a) promise \<Rightarrow> ('a \<Rightarrow> ('s, 'b) async) \<Rightarrow> ('s, 'b) async" where
  "pbind (Settled r) k = (case r of Fulfilled v \<Rightarrow> k v | Rejected e \<Rightarrow> athrow e)"
| "pbind (Pending f) k =
     (\<lambda>s. (s, Pending (\<lambda>s1. case map_prod id (\<lambda>p. pbind p k) (f s1) of (s2, g) \<Rightarrow> g s2)))"

definition abind :: "('s, 'a) async \<Rightarrow> ('a \<Rightarrow> ('s, 'b) async) \<Rightarrow> ('s, 'b) async" where
  "abind m k s = (case m s of (s1, p) \<Rightarrow> pbind p k s1)"

definition aseq :: "('s, unit) async \<Rightarrow> ('s, 'b) async \<Rightarrow> ('s, 'b) async" where
  "aseq m n = abind m (\<lambda>_. n)"

text \<open>\<open>try { m } catch (error) { h error }\<close>: the handler runs in the tick of the rejection.\<close>

primrec pcatch :: "('s, 'a) promise \<Rightarrow> (error \<Rightarrow> ('s, 'a) async) \<Rightarrow> ('s, 'a) async" where
  "pcatch (Settled r) h = (case r of Fulfilled v \<Rightarrow> areturn v | Rejected e \<Rightarrow> h e)"
| "pcatch (Pending f) h =
     (\<lambda>s. (s, Pending (\<lambda>s1. case map_prod id (\<lambda>p. pcatch p h) (f s1) of (s2, g) \<Rightarrow> g s2)))"

definition atry :: "('s, 'a) async \<Rightarrow> (error \<Rightarrow> ('s, 'a) async) \<Rightarrow> ('s, 'a) async" where
  "atry m h s = (case m s of (s1, p) \<Rightarrow> pcatch p h s1)"

text \<open>
  \<open>await m\<close>: the callee's synchronous prefix runs at once; the caller is resumed in a tick
  of its own, after the one in which the callee's promise settled, also when that promise is
  settled already.
\<close>

primrec awaitp :: "('s, 'a) promise \<Rightarrow> ('s, 'a) promise" where
  "awaitp (Settled r) = Pending (\<lambda>s. (s, Settled r))"
| "awaitp (Pending f) = Pending (\<lambda>s. map_prod id awaitp (f s))"

definition await :: "('s, 'a) async \<Rightarrow> ('s, 'a) async" where
  "await m s = map_prod id awaitp (m s)"

text \<open>
  Calling an async function without \<open>await\<close>: the prefix runs, the promise is a value that
  the caller may drop. The model keeps it, so that the event loop can resume it.
\<close>

definition start :: "('s, 'a) async \<Rightarrow> ('s, ('s, 'a) promise) async" where
  "start m s = (case m s of (s1, p) \<Rightarrow> (s1, Settled (Fulfilled p)))"

primrec forEach :: "('x \<Rightarrow> ('s, unit) async) \<Rightarrow> 'x list \<Rightarrow> ('s, unit) async" where
  "forEach f [] = areturn ()"
| "forEach f (x # xs) = aseq (f x) (forEach f xs)"

text \<open>The same over the indices \<open>k\<close>, \<open>k + 1\<close>, ... , \<open>k + n - 1\<close>.\<close>

primrec forEachIndex :: "(nat \<Rightarrow> ('s, unit) async) \<Rightarrow> nat \<Rightarrow> nat \<Rightarrow> ('s, unit) async" where
  "forEachIndex f k 0 = areturn ()"
| "forEachIndex f k (Suc n) = aseq (f k) (forEachIndex f (Suc k) n)"

text \<open>A call that is awaited with nothing else running: every tick is taken in turn.\<close>

primrec settle :: "('s, 'a) promise \<Rightarrow> 's \<Rightarrow> 's \<times> 'a outcome" where
  "settle (Settled r) = (\<lambda>s. (s, r))"
| "settle (Pending f) = (\<lambda>s. case map_prod id settle (f s) of (s1, g) \<Rightarrow> g s1)"

definition run :: "('s, 'a) async \<Rightarrow> 's \<Rightarrow> 's \<times> 'a outcome" where
  "run m s = (case m s of (s1, p) \<Rightarrow> settle p s1)"

text \<open>
  The event loop over floating promises: each entry of the schedule names the promise whose
  next tick runs. A settled promise, or an index out of range, leaves everything as it is.
\<close>

definition tick :: "nat \<Rightarrow> ('s, 'a) promise list \<Rightarrow> 's \<Rightarrow> 's \<times> ('s, 'a) promise list" where
  "tick i ps s =
     (if i < length ps then
        (case ps ! i of
           Settled r \<Rightarrow> (s, ps)
         | Pending f \<Rightarrow> (case f s of (s1, p) \<Rightarrow> (s1, ps[i := p])))
      else (s, ps))"

primrec runSchedule ::
  "nat list \<Rightarrow> ('s, 'a) promise list \<Rightarrow> 's \<Rightarrow> 's \<times> ('s, 'a) promise list" where
  "runSchedule [] ps s = (s, ps)"
| "runSchedule (i # sched) ps s = (case tick i ps s of (s1, ps1) \<Rightarrow> runSchedule sched ps1 s1)"

primrec is_settled :: "('s, 'a) promise \<Rightarrow> bool" where
  "is_settled (Settled r) = True"
| "is_settled (Pending f) = False"

primrec all_settled :: "('s, 'a) promise list \<Rightarrow> bool" where
  "all_settled [] = True"
| "all_settled (p # ps) = (is_settled p \<and> all_settled ps)"

text \<open>
  A synchronous caller that leaves promises floating, followed by the event loop running
  the given schedule on them.
\<close>

definition thenSettle ::
  "nat list \<Rightarrow> ('s, ('s, 'a) promise list) async \<Rightarrow> 's \<Rightarrow> 's \<times> ('s, 'a) promise list" where
  "thenSettle sched m s =
     (case m s of
        (s1, Settled (Fulfilled ps)) \<Rightarrow> runSchedule sched ps s1
      | (s1, Settled (Rejected e)) \<Rightarrow> (s1, [])
      | (s1, Pending f) \<Rightarrow> (s1, []))"

text \<open>
  An awaited computation that leaves promises floating when it is fulfilled, followed by the
  event loop running the given schedule on them.
\<close>

definition runThenSettle ::
  "nat list \<Rightarrow> ('s, ('s, 'a) promise list) async \<Rightarrow> 's \<Rightarrow> 's \<times> ('s, 'a) promise list" where
  "runThenSettle sched m s =
     (case run m s of
        (s1, Fulfilled ps) \<Rightarrow> runSchedule sched ps s1
      | (s1, Rejected e) \<Rightarrow> (s1, []))"

text \<open>
  A promise that the host settles in a later tick (a timer, a network load): \<open>m\<close> is what
  runs in that tick.
\<close>

definition later :: "('s, 'a) async \<Rightarrow> ('s, 'a) async" where
  "later m s = (s, Pending m)"

section \<open>Configuration document\<close>

text \<open>
  The fields are those the engine reads. An absent property (\<open>undefined\<close>) is \<open>None\<close>;
  identifiers and resource paths are strings, as the type declarations of the repository
  say (\<open>ColorOption\<close>, \<open>StrapOption\<close>, \<open>EnvironmentOption\<close>, \<open>Configuration\<close>).
\<close>

record color_textures =
  tex_primary :: string
  tex_accent :: string
  tex_roughness :: string

record color_option =
  color_id :: string
  color_name :: string
  color_preview :: string
  textures :: color_textures

record strap_option =
  strap_id :: string
  strap_name :: string
  strap_type :: "string option"
  strap_texture :: "string option"

record environment_option =
  env_id :: string
  env_name :: string
  env_gradient :: string
  env_background :: string

record material_names =
  name_primary :: string
  name_secondary :: string
  name_accent :: string

record default_values =
  dv_color :: "string option"
  dv_strap :: "string option"
  dv_environment :: "string option"

record configuration =
  product_materials :: material_names
  colors :: "color_option list"
  straps :: "strap_option list"
  environments :: "environment_option list"
  defaultColor :: "string option"
  defaultStrap :: "string option"
  defaultEnvironment :: "string option"
  defaults :: "default_values option"

text \<open>JavaScript truthiness of a string-or-undefined value, and \<open>a || b\<close> on such values.\<close>

definition truthy :: "string option \<Rightarrow> bool" where
  "truthy v = (case v of None \<Rightarrow> False | Some x \<Rightarrow> x \<noteq> [])"

definition js_or :: "string option \<Rightarrow> string option \<Rightarrow> string option" where
  "js_or a b = (if truthy a then a else b)"

text \<open>\<open>config.defaultColor || config.defaults?.color\<close> and its two siblings.\<close>

definition declaredColor :: "configuration \<Rightarrow> string option" where
  "declaredColor cfg =
     js_or (defaultColor cfg) (case defaults cfg of None \<Rightarrow> None | Some d \<Rightarrow> dv_color d)"

definition declaredStrap :: "configuration \<Rightarrow> string option" where
  "declaredStrap cfg =
     js_or (defaultStrap cfg) (case defaults cfg of None \<Rightarrow> None | Some d \<Rightarrow> dv_strap d)"

definition declaredEnvironment :: "configuration \<Rightarrow> string option" where
  "declaredEnvironment cfg =
     js_or (defaultEnvironment cfg)
       (case defaults cfg of None \<Rightarrow> None | Some d \<Rightarrow> dv_environment d)"

section \<open>The model viewer, listeners and the engine's state\<close>

text \<open>
  The viewer component is an external collaborator. What it answers is a parameter of the
  model: which materials the loaded model has, whether a material accepts a texture, and how
  the \<open>n\<close>-th call of \<open>createTexture\<close> ends for a given path.
\<close>

type_synonym texture = nat

datatype channel = BaseColorTexture | MetallicRoughnessTexture

record material =
  mat_name :: string
  setTexture_throws :: "channel \<Rightarrow> texture option \<Rightarrow> error option"

record viewer =
  model :: "material list option"
  createTexture_result :: "nat \<Rightarrow> string \<Rightarrow> error + texture"

record material_refs =
  mat_primary :: material
  mat_secondary :: material
  mat_accent :: material

record selection =
  color :: "string option"
  strap :: "string option"
  environment :: "string option"

datatype details = ErrorObject error | TimedOut | ViewerEvent string

text \<open>
  Event payloads: an identifier, the selection, an error report (type, message, details),
  the engine itself (\<open>initialized\<close>), and the loaded model (\<open>modelLoaded\<close>, whose
  \<open>loadTime\<close> and \<open>fileSize\<close> are left out).
\<close>

datatype payload =
    PId "string option"
  | PState selection
  | PError string string details
  | PEngine
  | PModelLoaded "material list option"

text \<open>
  A subscribed callback is code of the host application. It is identified by \<open>lid\<close>, as
  \<open>indexOf\<close> identifies it. Called with a payload, it may subscribe and unsubscribe
  callbacks and it may throw, which ends it: \<open>react\<close> lists what it does, in order. Each
  invocation is recorded in the trace \<open>delivered\<close>. A callback that calls one of the change
  operations of the engine while it is being notified is not expressible here.
\<close>

datatype action =
    Throw error
  | Subscribe string nat "payload \<Rightarrow> action list"
  | Unsubscribe string nat

record listener =
  lid :: nat
  react :: "payload \<Rightarrow> action list"

text \<open>The timers the engine sets; what they run happens after \<open>initialize\<close>.\<close>

datatype timer = ReapplyConfiguration | IdleTracking | TexturePreload

text \<open>
  The fields of \<open>ConfiguratorEngine\<close>, followed by the traces of what the engine did to its
  collaborators: \<open>emitted\<close> lists the calls of \<open>notifyListeners\<close>, \<open>delivered\<close> the callback
  invocations, \<open>loads\<close> the calls of the viewer's \<open>createTexture\<close>, \<open>applied\<close> the textures
  set on materials, \<open>envElements\<close> the environment elements of the page with their
  \<open>active\<close> mark, \<open>viewerEvents\<close> whether the listeners of \<open>setupModelViewerEvents\<close> are
  attached to the viewer element, \<open>timers\<close> the timers that are set.
  Log output and the \<open>timestamp\<close> fields of event payloads are not part of the state.
\<close>

record engine =
  config :: configuration
  modelViewer :: "viewer option"
  materials :: "material_refs option"
  currentState :: selection
  eventListeners :: "string \<rightharpoonup> listener list"
  isReady :: bool
  textureCache :: "string \<rightharpoonup> texture"
  isIdleRotating :: bool
  emitted :: "(string \<times> payload) list"
  delivered :: "(nat \<times> string \<times> payload) list"
  loads :: "string list"
  applied :: "(string \<times> channel \<times> texture option) list"
  envElements :: "(string \<times> bool) list"
  viewerEvents :: bool
  timers :: "timer list"

type_synonym 'a js = "(engine, 'a) async"

definition constructor :: "configuration \<Rightarrow> engine" where
  "constructor cfg =
     \<lparr> config = cfg,
       modelViewer = None,
       materials = None,
       currentState =
         \<lparr> color = js_or (declaredColor cfg)
                     (case colors cfg of [] \<Rightarrow> None | c # _ \<Rightarrow> Some (color_id c)),
           strap = js_or (declaredStrap cfg)
                     (case straps cfg of [] \<Rightarrow> None | x # _ \<Rightarrow> Some (strap_id x)),
           environment = js_or (declaredEnvironment cfg)
                     (case environments cfg of [] \<Rightarrow> None | x # _ \<Rightarrow> Some (env_id x)) \<rparr>,
       eventListeners = Map.empty,
       isReady = False,
       textureCache = Map.empty,
       isIdleRotating = False,
       emitted = [],
       delivered = [],
       loads = [],
       applied = [],
       envElements = [],
       viewerEvents = False,
       timers = [] \<rparr>"

section \<open>Event system\<close>

definition subscribe :: "string \<Rightarrow> listener \<Rightarrow> unit js" where
  "subscribe event callback =
     aseq (modify (\<lambda>s. case eventListeners s event of
                          None \<Rightarrow> s\<lparr>eventListeners := (eventListeners s)(event \<mapsto> [])\<rparr>
                        | Some cbs \<Rightarrow> s))
          (modify (\<lambda>s. case eventListeners s event of
                          None \<Rightarrow> s
                        | Some cbs \<Rightarrow>
                            s\<lparr>eventListeners := (eventListeners s)(event \<mapsto> cbs @ [callback])\<rparr>))"

text \<open>\<open>unsubscribe\<close> removes the first entry that is the given callback.\<close>

primrec splice_first :: "nat \<Rightarrow> listener list \<Rightarrow> listener list" where
  "splice_first i [] = []"
| "splice_first i (c # cs) = (if lid c = i then cs else c # splice_first i cs)"

definition unsubscribe :: "string \<Rightarrow> nat \<Rightarrow> unit js" where
  "unsubscribe event callback =
     modify (\<lambda>s. case eventListeners s event of
                    None \<Rightarrow> s
                  | Some cbs \<Rightarrow>
                      s\<lparr>eventListeners :=
                          (eventListeners s)(event \<mapsto> splice_first callback cbs)\<rparr>)"

primrec perform :: "action \<Rightarrow> unit js" where
  "perform (Throw e) = athrow e"
| "perform (Subscribe event i r) = subscribe event \<lparr> lid = i, react = r \<rparr>"
| "perform (Unsubscribe event i) = unsubscribe event i"

definition call_listener :: "listener \<Rightarrow> string \<Rightarrow> payload \<Rightarrow> unit js" where
  "call_listener callback event data =
     aseq (modify (\<lambda>s. s\<lparr>delivered := delivered s @ [(lid callback, event, data)]\<rparr>))
          (forEach perform (react callback data))"

text \<open>
  \<open>notifyListeners\<close> runs \<open>forEach\<close> on the event's array itself, the one that \<open>subscribe\<close>
  pushes to and \<open>unsubscribe\<close> splices. \<open>Array.prototype.forEach\<close> reads the length once
  and visits the indices below it in turn; at each index it reads the array as it is by
  then, and it skips an index that the array has no more.
\<close>

definition listenersOf :: "string \<Rightarrow> engine \<Rightarrow> listener list" where
  "listenersOf event s = (case eventListeners s event of None \<Rightarrow> [] | Some cbs \<Rightarrow> cbs)"

definition notifyListeners :: "string \<Rightarrow> payload \<Rightarrow> unit js" where
  "notifyListeners event data =
     aseq (modify (\<lambda>s. s\<lparr>emitted := emitted s @ [(event, data)]\<rparr>))
          (abind (gets eventListeners) (\<lambda>listeners.
             case listeners event of
               None \<Rightarrow> areturn ()
             | Some cbs \<Rightarrow>
                 forEachIndex
                   (\<lambda>k. abind (gets (listenersOf event)) (\<lambda>now.
                          if k < length now then
                            atry (call_listener (now ! k) event data)
                                 (\<lambda>error. areturn ())
                          else areturn ()))
                   0 (length cbs)))"

section \<open>Texture cache\<close>

text \<open>
  \<open>this.modelViewer.createTexture(url)\<close>: the call is recorded at once, the promise is
  settled by the viewer in a later tick. Without a viewer the property access throws.
\<close>

definition createTexture :: "string \<Rightarrow> texture js" where
  "createTexture url =
     abind (gets modelViewer) (\<lambda>mv.
       case mv of
         None \<Rightarrow> athrow (TypeError ''Cannot read properties of null (reading 'createTexture')'')
       | Some v \<Rightarrow>
           abind (gets (\<lambda>s. length (loads s))) (\<lambda>n.
           aseq (modify (\<lambda>s. s\<lparr>loads := loads s @ [url]\<rparr>))
                (later (case createTexture_result v n url of
                          Inl e \<Rightarrow> athrow e
                        | Inr texture \<Rightarrow> areturn texture))))"

definition preloadTexture :: "string \<Rightarrow> texture option js" where
  "preloadTexture url =
     abind (gets textureCache) (\<lambda>cache.
       case cache url of
         Some cached \<Rightarrow> areturn (Some cached)
       | None \<Rightarrow>
           atry (abind (await (createTexture url)) (\<lambda>texture.
                 aseq (modify (\<lambda>s. s\<lparr>textureCache := (textureCache s)(url \<mapsto> texture)\<rparr>))
                      (areturn (Some texture))))
                (\<lambda>error. areturn None))"

definition getTexture :: "string \<Rightarrow> texture option js" where
  "getTexture url =
     abind (gets textureCache) (\<lambda>cache.
       case cache url of
         Some cached \<Rightarrow> areturn (Some cached)
       | None \<Rightarrow> abind (await (preloadTexture url)) areturn)"

section \<open>Applying textures to the material slots\<close>

definition setTexture :: "material \<Rightarrow> channel \<Rightarrow> texture option \<Rightarrow> unit js" where
  "setTexture m ch tex =
     (case setTexture_throws m ch tex of
        Some e \<Rightarrow> athrow e
      | None \<Rightarrow> modify (\<lambda>s. s\<lparr>applied := applied s @ [(mat_name m, ch, tex)]\<rparr>))"

text \<open>
  \<open>this.materials\<close> is \<open>null\<close> until \<open>setupMaterialReferences\<close> has found all three
  materials, so reading \<open>this.materials.primary\<close> throws a \<open>TypeError\<close> before that. Once it
  is set, its three fields are material objects and the source's own
  \<open>throw new Error('Materials not ready')\<close> cannot be reached.
\<close>

definition applyColorTextures :: "color_option \<Rightarrow> unit js" where
  "applyColorTextures c =
     abind (gets materials) (\<lambda>ms.
       case ms of
         None \<Rightarrow> athrow (TypeError ''Cannot read properties of null (reading 'primary')'')
       | Some m \<Rightarrow>
           abind (await (getTexture (tex_primary (textures c)))) (\<lambda>primaryTexture.
           abind (await (getTexture (tex_accent (textures c)))) (\<lambda>accentTexture.
           abind (await (getTexture (tex_roughness (textures c)))) (\<lambda>roughnessTexture.
           aseq (setTexture (mat_primary m) BaseColorTexture primaryTexture)
          (aseq (setTexture (mat_secondary m) BaseColorTexture accentTexture)
          (aseq (setTexture (mat_accent m) BaseColorTexture accentTexture)
                (setTexture (mat_primary m) MetallicRoughnessTexture roughnessTexture)))))))"

text \<open>The texture path \<open>applyStrapConfiguration\<close> picks, read when it is called.\<close>

definition strapTextureOf :: "string option \<Rightarrow> engine \<Rightarrow> string option" where
  "strapTextureOf strapId s =
     (if strapId = Some ''selected'' then
        (case find (\<lambda>c. Some (color_id c) = color (currentState s)) (colors (config s)) of
           Some currentColor \<Rightarrow> Some (tex_accent (textures currentColor))
         | None \<Rightarrow> None)
      else
        (case find (\<lambda>x. Some (strap_id x) = strapId) (straps (config s)) of
           Some x \<Rightarrow> (if truthy (strap_texture x) then strap_texture x else None)
         | None \<Rightarrow> None))"

definition applyStrapConfiguration :: "string option \<Rightarrow> unit js" where
  "applyStrapConfiguration strapId =
     abind (gets materials) (\<lambda>ms.
       case ms of
         None \<Rightarrow> athrow (TypeError ''Cannot read properties of null (reading 'accent')'')
       | Some m \<Rightarrow>
           abind (gets (strapTextureOf strapId)) (\<lambda>strapTexture.
             if truthy strapTexture then
               (case strapTexture of
                  Some url \<Rightarrow>
                    abind (await (getTexture url)) (\<lambda>texture.
                      setTexture (mat_accent m) BaseColorTexture texture)
                | None \<Rightarrow> areturn ())
             else areturn ()))"

section \<open>Selection changes\<close>

definition changeColor :: "string option \<Rightarrow> unit js" where
  "changeColor colorId =
     abind (gets config) (\<lambda>cfg.
       case find (\<lambda>c. Some (color_id c) = colorId) (colors cfg) of
         None \<Rightarrow> areturn ()
       | Some c \<Rightarrow>
           abind (gets (\<lambda>s. color (currentState s))) (\<lambda>previousColor.
           aseq (modify (\<lambda>s. s\<lparr>currentState := (currentState s)\<lparr>color := colorId\<rparr>\<rparr>))
          (aseq (notifyListeners ''colorChanged'' (PId colorId))
                (atry
                   (aseq (await (applyColorTextures c))
                   (aseq (modify (\<lambda>s. s\<lparr>currentState :=
                                          (currentState s)\<lparr>strap := Some ''selected''\<rparr>\<rparr>))
                   (aseq (await (applyStrapConfiguration (Some ''selected'')))
                         (notifyListeners ''strapChanged'' (PId (Some ''selected''))))))
                   (\<lambda>error.
                      aseq (modify (\<lambda>s. s\<lparr>currentState :=
                                             (currentState s)\<lparr>color := previousColor\<rparr>\<rparr>))
                     (aseq (notifyListeners ''colorChanged'' (PId previousColor))
                           (notifyListeners ''error''
                              (PError ''user'' (''Failed to change color to '' @ color_name c)
                                 (ErrorObject error)))))))))"

definition changeStrap :: "string option \<Rightarrow> unit js" where
  "changeStrap strapId =
     abind (gets config) (\<lambda>cfg.
       case find (\<lambda>x. Some (strap_id x) = strapId) (straps cfg) of
         None \<Rightarrow> areturn ()
       | Some x \<Rightarrow>
           aseq (modify (\<lambda>s. s\<lparr>currentState := (currentState s)\<lparr>strap := strapId\<rparr>\<rparr>))
                (atry
                   (aseq (await (applyStrapConfiguration strapId))
                         (notifyListeners ''strapChanged'' (PId strapId)))
                   (\<lambda>error. areturn ())))"

text \<open>
  \<open>changeEnvironment\<close> takes the \<open>active\<close> mark from every environment element and gives it
  to the first element whose id belongs to the new environment, if there is one.
\<close>

primrec mark_first :: "string \<Rightarrow> (string \<times> bool) list \<Rightarrow> (string \<times> bool) list" where
  "mark_first i [] = []"
| "mark_first i (e # es) = (if fst e = i then (fst e, True) # es else e # mark_first i es)"

definition changeEnvironment :: "string option \<Rightarrow> unit js" where
  "changeEnvironment environmentId =
     abind (gets config) (\<lambda>cfg.
       case find (\<lambda>x. Some (env_id x) = environmentId) (environments cfg) of
         None \<Rightarrow> areturn ()
       | Some x \<Rightarrow>
           aseq (modify (\<lambda>s. s\<lparr>currentState :=
                                  (currentState s)\<lparr>environment := environmentId\<rparr>\<rparr>))
          (aseq (modify (\<lambda>s. s\<lparr>envElements := map (\<lambda>e. (fst e, False)) (envElements s)\<rparr>))
          (aseq (modify (\<lambda>s. s\<lparr>envElements := mark_first (env_id x) (envElements s)\<rparr>))
                (notifyListeners ''environmentChanged'' (PId environmentId)))))"

section \<open>Public API: state, reset, share link\<close>

definition getState :: "engine \<Rightarrow> selection" where
  "getState s = currentState s"

text \<open>
  \<open>reset\<close> is not an async function: it calls \<open>changeColor\<close> and \<open>changeStrap\<close> without
  \<open>await\<close> and goes on. The model returns the two promises it leaves floating. The
  \<open>reset\<close> event is given the engine's state object itself; the model records the value it
  has when the event is emitted.
\<close>

definition reset :: "(engine, unit) promise list js" where
  "reset =
     abind (gets config) (\<lambda>cfg.
     abind (start (changeColor (declaredColor cfg))) (\<lambda>p1.
     abind (start (changeStrap (declaredStrap cfg))) (\<lambda>p2.
     aseq (changeEnvironment (declaredEnvironment cfg))
    (aseq (abind (gets currentState) (\<lambda>st. notifyListeners ''reset'' (PState st)))
          (areturn [p1, p2])))))"

text \<open>
  The share link: origin and path of the page, and the three entries
  \<open>new URLSearchParams(this.currentState)\<close> holds, in the order of the state's properties.
  An undefined value is written as the text \<open>undefined\<close>. The percent-encoding of the
  entries into the query string, and its decoding when the link is opened, are the
  browser's.
\<close>

record share_url =
  url_origin :: string
  url_pathname :: string
  url_params :: "(string \<times> string) list"

definition param_text :: "string option \<Rightarrow> string" where
  "param_text v = (case v of None \<Rightarrow> ''undefined'' | Some x \<Rightarrow> x)"

definition getShareURL :: "string \<Rightarrow> string \<Rightarrow> engine \<Rightarrow> share_url" where
  "getShareURL origin pathname s =
     \<lparr> url_origin = origin,
       url_pathname = pathname,
       url_params =
         [(''color'', param_text (color (currentState s))),
          (''strap'', param_text (strap (currentState s))),
          (''environment'', param_text (environment (currentState s)))] \<rparr>"

section \<open>Orchestrator: applying the parameters of the page's URL\<close>

text \<open>
  \<open>XRUpgradeConfigurator.applyURLParameters\<close> reads \<open>window.location.search\<close> and calls the
  engine, again without \<open>await\<close>. \<open>params.get\<close> answers the first entry of a name. The
  \<open>mobile\<close> and \<open>ar\<close> parameters mark the page and start the AR hand-off; they do not touch
  the engine's selection and are left out.
\<close>

definition applyURLParameters :: "(string \<times> string) list \<Rightarrow> (engine, unit) promise list js" where
  "applyURLParameters params =
     abind (case map_of params ''color'' of
              Some c \<Rightarrow> abind (start (changeColor (Some c))) (\<lambda>p. areturn [p])
            | None \<Rightarrow> areturn []) (\<lambda>ps1.
     abind (case map_of params ''strap'' of
              Some x \<Rightarrow> abind (start (changeStrap (Some x))) (\<lambda>p. areturn [p])
            | None \<Rightarrow> areturn []) (\<lambda>ps2.
     aseq (case map_of params ''environment'' of
             Some e \<Rightarrow> changeEnvironment (Some e)
           | None \<Rightarrow> areturn ())
          (areturn (ps1 @ ps2))))"

section \<open>Initialization\<close>

text \<open>
  What the page contributes to \<open>initialize\<close>: whether the viewer library is defined when it
  is first looked for and whether it arrives within the ten seconds allowed, whether the
  container exists and has (or gets, within five seconds) a size, the viewer element that is
  created, whether the viewer reports its model as loaded when \<open>waitForModelLoad\<close> looks,
  and otherwise how the load ends: with the \<open>load\<close> event, with the \<open>error\<close> event (whose
  \<open>detail\<close> is given as text, empty when it is falsy), or with neither before the thirty
  seconds' timeout. The attributes set on the element are the viewer's business and are not
  modelled.
\<close>

datatype model_load = LoadEvent | ErrorEvent string | NoEvent

record page =
  library_defined :: bool
  library_arrives :: bool
  container_present :: bool
  container_has_size :: bool
  container_gets_size :: bool
  created_viewer :: viewer
  model_already_loaded :: bool
  model_load :: model_load

definition ensureModelViewerLoaded :: "page \<Rightarrow> unit js" where
  "ensureModelViewerLoaded pg =
     (if \<not> library_defined pg then
        later (if library_arrives pg then areturn ()
               else aseq (notifyListeners ''error''
                            (PError ''network'' ''Failed to load model-viewer library'' TimedOut))
                         (athrow (Error ''model-viewer library failed to load within 10 seconds'')))
      else areturn ())"

definition ensureContainerReady :: "page \<Rightarrow> unit js" where
  "ensureContainerReady pg =
     (if \<not> container_present pg then athrow (Error ''Container is null or undefined'')
      else if \<not> container_has_size pg then
        later (if container_gets_size pg then areturn ()
               else athrow (Error ''Container failed to get dimensions''))
      else areturn ())"

text \<open>
  \<open>setupModelViewerEvents\<close> attaches the engine's listeners to the viewer element. The
  \<open>load\<close> listener emits \<open>modelLoaded\<close>, sets a timer that applies the initial
  configuration once more half a second later, turns the rotation on and starts the idle
  tracking (\<open>ensureModelVisibility\<close>, which it also calls, sets camera attributes of the
  element). The \<open>error\<close> listener emits an \<open>error\<close> event of type \<open>webgl\<close>
  (\<open>diagnoseModelError\<close>, which it also calls, only logs). The listeners for \<open>progress\<close>,
  \<open>ar-status\<close> and the pointer events answer to what happens after the initialization and
  are left out.
\<close>

definition startIdleTracking :: "unit js" where
  "startIdleTracking =
     aseq (modify (\<lambda>s. s\<lparr>timers := filter (\<lambda>t. t \<noteq> IdleTracking) (timers s)\<rparr>))
          (modify (\<lambda>s. s\<lparr>timers := timers s @ [IdleTracking]\<rparr>))"

definition onViewerLoad :: "unit js" where
  "onViewerLoad =
     abind (gets modelViewer) (\<lambda>mv.
       case mv of
         None \<Rightarrow> athrow (TypeError ''Cannot read properties of null (reading 'model')'')
       | Some v \<Rightarrow>
           aseq (notifyListeners ''modelLoaded'' (PModelLoaded (model v)))
          (aseq (modify (\<lambda>s. s\<lparr>timers := timers s @ [ReapplyConfiguration]\<rparr>))
          (aseq (modify (\<lambda>s. s\<lparr>isIdleRotating := True\<rparr>))
                startIdleTracking)))"

definition onViewerError :: "string \<Rightarrow> unit js" where
  "onViewerError detail =
     notifyListeners ''error''
       (PError ''webgl'' ''Failed to load 3D model'' (ViewerEvent detail))"

definition setupModelViewerEvents :: "unit js" where
  "setupModelViewerEvents = modify (\<lambda>s. s\<lparr>viewerEvents := True\<rparr>)"

text \<open>
  The viewer dispatching an event to the engine's listener, if it is attached. An exception
  in a listener is reported by the browser and does not reach the listeners that follow.
\<close>

definition dispatchLoad :: "unit js" where
  "dispatchLoad =
     abind (gets viewerEvents) (\<lambda>attached.
       if attached then atry onViewerLoad (\<lambda>error. areturn ()) else areturn ())"

definition dispatchError :: "string \<Rightarrow> unit js" where
  "dispatchError detail =
     abind (gets viewerEvents) (\<lambda>attached.
       if attached then atry (onViewerError detail) (\<lambda>error. areturn ()) else areturn ())"

text \<open>\<open>createModelViewer\<close> is reached only after the library has been found.\<close>

definition createModelViewer :: "page \<Rightarrow> unit js" where
  "createModelViewer pg =
     aseq (await (ensureModelViewerLoaded (pg\<lparr>library_defined := True\<rparr>)))
    (aseq (modify (\<lambda>s. s\<lparr>modelViewer := Some (created_viewer pg)\<rparr>))
          setupModelViewerEvents)"

text \<open>
  \<open>waitForModelLoad\<close> adds its own \<open>load\<close> and \<open>error\<close> listeners, after those of
  \<open>setupModelViewerEvents\<close>; the viewer calls the listeners of an event in the order in
  which they were added. When the viewer reports the model as loaded already, its \<open>load\<close>
  event has been dispatched since the element was created, a time in which the engine does
  nothing else; the model lets that dispatch happen here.
\<close>

definition waitForModelLoad :: "page \<Rightarrow> unit js" where
  "waitForModelLoad pg =
     abind (gets modelViewer) (\<lambda>mv.
       case mv of
         None \<Rightarrow> athrow (TypeError ''Cannot read properties of null (reading 'loaded')'')
       | Some v \<Rightarrow>
           if model_already_loaded pg then aseq dispatchLoad (areturn ())
           else later
             (case model_load pg of
                LoadEvent \<Rightarrow> aseq dispatchLoad (areturn ())
              | ErrorEvent detail \<Rightarrow>
                  aseq (dispatchError detail)
                       (athrow (Error (''Model load failed: '' @
                          (if detail = [] then ''Unknown error'' else detail))))
              | NoEvent \<Rightarrow> athrow (Error ''Model load timeout'')))"

definition getMaterialByName :: "material list \<Rightarrow> string \<Rightarrow> material option" where
  "getMaterialByName ms n = find (\<lambda>m. mat_name m = n) ms"

definition setupMaterialReferences :: "unit js" where
  "setupMaterialReferences =
     atry
       (abind (gets modelViewer) (\<lambda>mv.
          case mv of
            None \<Rightarrow> athrow (TypeError ''Cannot read properties of null (reading 'model')'')
          | Some v \<Rightarrow>
              (case model v of
                 None \<Rightarrow> areturn ()
               | Some ms \<Rightarrow>
                   abind (gets (\<lambda>s. product_materials (config s))) (\<lambda>materialNames.
                     case (getMaterialByName ms (name_primary materialNames),
                           getMaterialByName ms (name_secondary materialNames),
                           getMaterialByName ms (name_accent materialNames)) of
                       (Some primaryMaterial, Some secondaryMaterial, Some accentMaterial) \<Rightarrow>
                         modify (\<lambda>s. s\<lparr>materials :=
                                   Some \<lparr> mat_primary = primaryMaterial,
                                          mat_secondary = secondaryMaterial,
                                          mat_accent = accentMaterial \<rparr>\<rparr>)
                     | _ \<Rightarrow> areturn ()))))
       (\<lambda>error. areturn ())"

definition setupEnvironments :: "unit js" where
  "setupEnvironments =
     modify (\<lambda>s. s\<lparr>envElements :=
                       envElements s @
                       map (\<lambda>env. (env_id env, Some (env_id env) = environment (currentState s)))
                           (environments (config s))\<rparr>)"

text \<open>
  \<open>startTexturePreloading\<close> uses \<open>isReady\<close> as its own guard and sets a timer for the
  background preload. The preload itself starts half a second later, hence after
  \<open>initialize\<close>, and is not modelled; when it ends it sets \<open>isReady\<close> to \<open>false\<close>.
\<close>

definition startTexturePreloading :: "unit js" where
  "startTexturePreloading =
     abind (gets isReady) (\<lambda>ready.
       if ready then areturn ()
       else aseq (modify (\<lambda>s. s\<lparr>isReady := True\<rparr>))
                 (modify (\<lambda>s. s\<lparr>timers := timers s @ [TexturePreload]\<rparr>)))"

definition applyInitialConfiguration :: "unit js" where
  "applyInitialConfiguration =
     abind (gets materials) (\<lambda>ms.
       case ms of
         None \<Rightarrow> areturn ()
       | Some m \<Rightarrow>
           atry
             (abind (gets (\<lambda>s. find (\<lambda>c. Some (color_id c) = color (currentState s))
                                     (colors (config s)))) (\<lambda>initialColor.
              aseq (case initialColor of
                      Some c \<Rightarrow> await (applyColorTextures c)
                    | None \<Rightarrow> areturn ())
                   (abind (gets (\<lambda>s. strap (currentState s))) (\<lambda>strapId.
                      await (applyStrapConfiguration strapId)))))
             (\<lambda>error. areturn ()))"

definition initialize :: "page \<Rightarrow> unit js" where
  "initialize pg =
     atry
       (aseq (await (ensureModelViewerLoaded pg))
       (aseq (await (ensureContainerReady pg))
       (aseq (await (createModelViewer pg))
       (aseq (await (waitForModelLoad pg))
       (aseq setupMaterialReferences
       (aseq setupEnvironments
       (aseq startTexturePreloading
       (aseq (await applyInitialConfiguration)
       (aseq (modify (\<lambda>s. s\<lparr>isReady := True\<rparr>))
             (notifyListeners ''initialized'' PEngine))))))))))
       (\<lambda>error. aseq (modify (\<lambda>s. s\<lparr>isReady := False\<rparr>)) (athrow error))"

section \<open>Orchestrator: the page embedded without its widgets\<close>

text \<open>
  \<open>XRUpgradeConfigurator.embed\<close> with the option \<open>showUI: false\<close> sets \<open>hideUI\<close> and calls
  \<open>XRUpgradeConfigurator.initialize\<close>. That waits a tenth of a second for the container,
  awaits the engine's \<open>initialize\<close>, calls \<open>applyURLParameters\<close>, skips \<open>createUI\<close> and
  \<open>syncUIWithEngineState\<close>, and subscribes its eight listeners; an exception is logged and
  thrown again. Without \<open>createUI\<close> the map \<open>components\<close> stays empty, so the \<open>strapChanged\<close>
  listener's \<open>this.components.get('strapSelector')?.setStrap(strapId)\<close> does nothing. The
  other listeners log, or change the loading overlay and the progress bar; the \<open>error\<close>
  listener calls \<open>this.handleError\<close>, which the class does not define, and so throws a
  \<open>TypeError\<close>. None of them calls the engine. With the widgets shown the listeners and
  \<open>syncUIWithEngineState\<close> call \<open>changeStrap\<close> again through the strap selector; that page
  is not modelled.
\<close>

definition orchestratorListeners :: "(string \<times> listener) list" where
  "orchestratorListeners =
     [(''initialized'', \<lparr> lid = 0, react = (\<lambda>data. []) \<rparr>),
      (''colorChanged'', \<lparr> lid = 1, react = (\<lambda>data. []) \<rparr>),
      (''strapChanged'', \<lparr> lid = 2, react = (\<lambda>data. []) \<rparr>),
      (''environmentChanged'', \<lparr> lid = 3, react = (\<lambda>data. []) \<rparr>),
      (''texturePreloadProgress'', \<lparr> lid = 4, react = (\<lambda>data. []) \<rparr>),
      (''texturePreloadComplete'', \<lparr> lid = 5, react = (\<lambda>data. []) \<rparr>),
      (''idleModeChanged'', \<lparr> lid = 6, react = (\<lambda>data. []) \<rparr>),
      (''error'', \<lparr> lid = 7,
                    react = (\<lambda>data. [Throw (TypeError ''this.handleError is not a function'')]) \<rparr>)]"

definition startWithoutUI :: "(string \<times> string) list \<Rightarrow> (engine, unit) promise list js" where
  "startWithoutUI params =
     abind (applyURLParameters params) (\<lambda>floating.
     aseq (forEach (\<lambda>subscription. subscribe (fst subscription) (snd subscription))
                   orchestratorListeners)
          (areturn floating))"

definition orchestratorInitialize ::
  "page \<Rightarrow> (string \<times> string) list \<Rightarrow> (engine, unit) promise list js" where
  "orchestratorInitialize pg params =
     atry
       (aseq (await (later (areturn ())))
       (aseq (await (initialize pg))
             (startWithoutUI params)))
       (\<lambda>error. athrow error)"

section \<open>Device detection\<close>

text \<open>
  The properties of \<open>window\<close>, \<open>navigator\<close> and \<open>location\<close> that \<open>DeviceDetection\<close> reads.
  \<open>xr\<close> is \<open>None\<close> when \<open>navigator\<close> has no \<open>xr\<close> property and otherwise tells whether
  \<open>requestSession\<close> is in it; \<open>webkit\<close> is \<open>None\<close> when \<open>window.webkit\<close> is absent.
\<close>

record webkit =
  messageHandlers :: "bool option"
  standalone :: bool

record host =
  innerWidth :: int
  ontouchstart :: bool
  userAgent :: string
  platform :: string
  maxTouchPoints :: nat
  vendor :: string
  protocol :: string
  hostname :: string
  xr :: "bool option"
  webkit :: "webkit option"
  androidInterface :: bool

text \<open>String helpers: ASCII lower case, prefix and substring tests, decimal digits.\<close>

definition lower_char :: "char \<Rightarrow> char" where
  "lower_char c =
     (let n = (of_char c :: nat) in if 65 \<le> n \<and> n \<le> 90 then char_of (n + 32) else c)"

definition toLowerCase :: "string \<Rightarrow> string" where
  "toLowerCase s = map lower_char s"

fun starts_with :: "string \<Rightarrow> string \<Rightarrow> bool" where
  "starts_with [] s = True"
| "starts_with (p # ps) [] = False"
| "starts_with (p # ps) (c # cs) = (p = c \<and> starts_with ps cs)"

primrec str_includes :: "string \<Rightarrow> string \<Rightarrow> bool" where
  "str_includes [] w = (w = [])"
| "str_includes (c # cs) w = (starts_with w (c # cs) \<or> str_includes cs w)"

definition is_digit :: "char \<Rightarrow> bool" where
  "is_digit c = (let n = (of_char c :: nat) in 48 \<le> n \<and> n \<le> 57)"

definition digits_value :: "string \<Rightarrow> nat" where
  "digits_value ds = foldl (\<lambda>n c. 10 * n + ((of_char c :: nat) - 48)) 0 ds"

text \<open>\<open>userAgent.match(/OS (\d+)_/)\<close> with \<open>parseInt\<close> of the group: the leftmost match.\<close>

primrec match_OS :: "string \<Rightarrow> nat option" where
  "match_OS [] = None"
| "match_OS (c # cs) =
     (let rest = drop 3 (c # cs); ds = takeWhile is_digit rest in
      if starts_with ''OS '' (c # cs) \<and> ds \<noteq> [] \<and>
         starts_with ''_'' (dropWhile is_digit rest)
      then Some (digits_value ds) else match_OS cs)"

text \<open>
  \<open>userAgent.match(/Android (\d+(\.\d+)?)/)\<close> with \<open>parseFloat\<close> of the group. The value
  is the exact decimal; JavaScript rounds it to the nearest double.
\<close>

primrec match_Android :: "string \<Rightarrow> rat option" where
  "match_Android [] = None"
| "match_Android (c # cs) =
     (let rest = drop 8 (c # cs); ds = takeWhile is_digit rest;
          more = dropWhile is_digit rest; fs = takeWhile is_digit (drop 1 more) in
      if starts_with ''Android '' (c # cs) \<and> ds \<noteq> [] then
        (if starts_with ''.'' more \<and> fs \<noteq> []
         then Some (of_nat (digits_value ds) + of_nat (digits_value fs) / 10 ^ length fs)
         else Some (of_nat (digits_value ds)))
      else match_Android cs)"

definition isMobile :: "host \<Rightarrow> bool" where
  "isMobile h =
     (let mobileWidth = (innerWidth h \<le> 768);
          ua = toLowerCase (userAgent h);
          mobileUserAgent =
            (str_includes ua ''android'' \<or> str_includes ua ''webos'' \<or> str_includes ua ''iphone'' \<or>
             str_includes ua ''ipad'' \<or> str_includes ua ''ipod'' \<or> str_includes ua ''blackberry'' \<or>
             str_includes ua ''iemobile'' \<or> str_includes ua ''opera mini'');
          touchDevice = ontouchstart h
      in mobileWidth \<or> mobileUserAgent \<or> touchDevice)"

definition isTablet :: "host \<Rightarrow> bool" where
  "isTablet h = (innerWidth h > 768 \<and> innerWidth h \<le> 1024)"

definition isDesktop :: "host \<Rightarrow> bool" where
  "isDesktop h = (\<not> isMobile h \<and> \<not> isTablet h)"

definition isiOS :: "host \<Rightarrow> bool" where
  "isiOS h =
     (let ua = toLowerCase (userAgent h); pf = toLowerCase (platform h) in
      (str_includes ua ''iphone'' \<or> str_includes ua ''ipad'' \<or> str_includes ua ''ipod'') \<or>
      (pf = ''macintel'' \<and> maxTouchPoints h > 1))"

definition isAndroid :: "host \<Rightarrow> bool" where
  "isAndroid h =
     (let ua = toLowerCase (userAgent h) in str_includes ua ''android'' \<and> \<not> str_includes ua ''chrome'')"

datatype device_type = Mobile | Tablet | Desktop

definition getDeviceType :: "host \<Rightarrow> device_type" where
  "getDeviceType h = (if isMobile h then Mobile else if isTablet h then Tablet else Desktop)"

definition getIOSVersion :: "host \<Rightarrow> nat" where
  "getIOSVersion h =
     (if \<not> isiOS h then 0
      else case match_OS (userAgent h) of
        Some v \<Rightarrow> v
      | None \<Rightarrow>
          if (case webkit h of None \<Rightarrow> False | Some w \<Rightarrow> messageHandlers w \<noteq> None) then 12
          else if (case webkit h of None \<Rightarrow> False | Some w \<Rightarrow> standalone w) then 11
          else if xr h \<noteq> None then 12
          else 0)"

definition getAndroidVersion :: "host \<Rightarrow> rat" where
  "getAndroidVersion h =
     (if \<not> isAndroid h then 0
      else case match_Android (userAgent h) of
        Some v \<Rightarrow> v
      | None \<Rightarrow>
          if xr h \<noteq> None then 7
          else if androidInterface h then 7
          else 0)"

definition isMobileDevice :: "host \<Rightarrow> bool" where
  "isMobileDevice h =
     (let ua = toLowerCase (userAgent h) in
      list_ex (\<lambda>keyword. str_includes ua keyword)
        [''android'', ''webos'', ''iphone'', ''ipad'', ''ipod'', ''blackberry'', ''iemobile'',
         ''opera mini'', ''mobile safari''])"

definition hasARCore :: "host \<Rightarrow> bool" where
  "hasARCore h =
     (if \<not> isAndroid h then False
      else if getAndroidVersion h < 7 then False
      else (let ua = toLowerCase (userAgent h) in str_includes ua ''chrome'' \<or> str_includes ua ''samsung''))"

definition hasARKit :: "host \<Rightarrow> bool" where
  "hasARKit h =
     (if \<not> isiOS h then False
      else if getIOSVersion h < 12 then False
      else (xr h \<noteq> None \<or>
            (case webkit h of
               None \<Rightarrow> False
             | Some w \<Rightarrow> (case messageHandlers w of None \<Rightarrow> False | Some arkit \<Rightarrow> arkit))))"

definition getARMode :: "host \<Rightarrow> string option" where
  "getARMode h =
     (if isiOS h then Some ''quick-look''
      else if isAndroid h then Some ''scene-viewer''
      else if xr h \<noteq> None then Some ''webxr''
      else None)"

record capabilities =
  cap_isMobile :: bool
  cap_isiOS :: bool
  cap_isAndroid :: bool
  cap_isHTTPS :: bool
  cap_hasWebXR :: bool
  cap_hasARCore :: bool
  cap_hasARKit :: bool
  cap_iosVersion :: nat
  cap_androidVersion :: rat
  cap_userAgent :: string
  cap_platform :: string
  cap_vendor :: string

definition getCapabilities :: "host \<Rightarrow> capabilities" where
  "getCapabilities h =
     \<lparr> cap_isMobile = isMobileDevice h,
       cap_isiOS = isiOS h,
       cap_isAndroid = isAndroid h,
       cap_isHTTPS = (protocol h = ''https:'' \<or> hostname h = ''localhost''),
       cap_hasWebXR = (xr h = Some True),
       cap_hasARCore = hasARCore h,
       cap_hasARKit = hasARKit h,
       cap_iosVersion = getIOSVersion h,
       cap_androidVersion = getAndroidVersion h,
       cap_userAgent = userAgent h,
       cap_platform = platform h,
       cap_vendor = vendor h \<rparr>"

record ar_support =
  supported :: bool
  mode :: "string option"
  reason :: "string option"
  support_capabilities :: capabilities

text \<open>
  \<open>checkARSupport\<close> is declared \<open>async\<close> and has no \<open>await\<close> and no \<open>throw\<close>: it is a
  computation that settles in its first run, over a state (the host) it does not change.
\<close>

definition checkARSupport :: "(host, ar_support) async" where
  "checkARSupport =
     abind (gets getCapabilities) (\<lambda>caps.
     abind (areturn \<lparr> supported = False, mode = None, reason = None,
                      support_capabilities = caps \<rparr>) (\<lambda>support.
       if \<not> cap_isHTTPS caps then
         areturn (support\<lparr>reason := Some ''AR requires HTTPS connection''\<rparr>)
       else if \<not> cap_isiOS caps \<and> \<not> cap_isAndroid caps then
         areturn (support\<lparr>reason := Some ''AR is only supported on iOS and Android devices''\<rparr>)
       else if cap_isiOS caps \<and> cap_iosVersion caps < 12 then
         areturn (support\<lparr>reason := Some ''AR requires iOS 12 or later''\<rparr>)
       else if cap_isAndroid caps \<and> cap_androidVersion caps < 7 then
         areturn (support\<lparr>reason := Some ''AR requires Android 7.0 or later''\<rparr>)
       else if cap_hasWebXR caps \<or> cap_hasARCore caps \<or> cap_hasARKit caps then
         abind (gets getARMode) (\<lambda>m. areturn (support\<lparr>supported := True, mode := m\<rparr>))
       else
         areturn (support\<lparr>reason := Some ''AR not supported by this browser or device''\<rparr>)))"

section \<open>Sequential effect of the operations\<close>

text \<open>
  The definitions of this section are not operations of the engine: they name the states
  that the theorems below speak about. \<open>notified\<close> is the state after a call of
  \<open>notifyListeners\<close>, which never awaits or throws; \<open>apart\<close> is everything of the engine
  but the subscriptions and the record of the callback invocations; \<open>quiet\<close> says that a
  callback, notified with the given payload, neither subscribes nor unsubscribes;
  \<open>fetched\<close> is the state and result after an awaited \<open>getTexture\<close>; \<open>core\<close> is
  everything of the engine but its texture cache and the record of the viewer calls;
  \<open>textureApply\<close> is the two awaited texture applications of \<open>changeColor\<close> (steps b and
  c of its \<open>try\<close> block), \<open>optimistic\<close> the state in which they start and \<open>rolledBack\<close>
  the state its \<open>catch\<close> block leaves.
\<close>

definition notified :: "string \<Rightarrow> payload \<Rightarrow> engine \<Rightarrow> engine" where
  "notified event data s = fst (notifyListeners event data s)"

definition apart ::
  "engine \<Rightarrow> configuration \<times> viewer option \<times> material_refs option \<times> selection \<times> bool \<times>
     (string \<rightharpoonup> texture) \<times> bool \<times> (string \<times> payload) list \<times> string list \<times>
     (string \<times> channel \<times> texture option) list \<times> (string \<times> bool) list \<times> bool \<times> timer list" where
  "apart s = (config s, modelViewer s, materials s, currentState s, isReady s, textureCache s,
              isIdleRotating s, emitted s, loads s, applied s, envElements s, viewerEvents s,
              timers s)"

primrec throwing :: "action \<Rightarrow> bool" where
  "throwing (Throw e) = True"
| "throwing (Subscribe event i r) = False"
| "throwing (Unsubscribe event i) = False"

definition quiet :: "listener \<Rightarrow> payload \<Rightarrow> bool" where
  "quiet callback data = list_all throwing (react callback data)"

definition fetched :: "string \<Rightarrow> engine \<Rightarrow> engine \<times> texture option" where
  "fetched url s =
     (case textureCache s url of
        Some cached \<Rightarrow> (s, Some cached)
      | None \<Rightarrow>
          (case modelViewer s of
             None \<Rightarrow> (s, None)
           | Some v \<Rightarrow>
               (case createTexture_result v (length (loads s)) url of
                  Inl e \<Rightarrow> (s\<lparr>loads := loads s @ [url]\<rparr>, None)
                | Inr t \<Rightarrow>
                    (s\<lparr>loads := loads s @ [url],
                       textureCache := (textureCache s)(url \<mapsto> t)\<rparr>, Some t))))"

definition core ::
  "engine \<Rightarrow> configuration \<times> viewer option \<times> material_refs option \<times> selection \<times>
     (string \<rightharpoonup> listener list) \<times> bool \<times> bool \<times> (string \<times> payload) list \<times>
     (nat \<times> string \<times> payload) list \<times> (string \<times> bool) list \<times> bool \<times> timer list" where
  "core s = (config s, modelViewer s, materials s, currentState s, eventListeners s,
             isReady s, isIdleRotating s, emitted s, delivered s, envElements s,
             viewerEvents s, timers s)"

definition frame :: "'a js \<Rightarrow> bool" where
  "frame m = (\<forall>s s' r. run m s = (s', r) \<longrightarrow> core s' = core s)"

definition textureApply :: "color_option \<Rightarrow> unit js" where
  "textureApply c =
     aseq (await (applyColorTextures c))
    (aseq (modify (\<lambda>s. s\<lparr>currentState := (currentState s)\<lparr>strap := Some ''selected''\<rparr>\<rparr>))
          (await (applyStrapConfiguration (Some ''selected''))))"

definition optimistic :: "string option \<Rightarrow> engine \<Rightarrow> engine" where
  "optimistic colorId s =
     notified ''colorChanged'' (PId colorId)
       (s\<lparr>currentState := (currentState s)\<lparr>color := colorId\<rparr>\<rparr>)"

definition rolledBack :: "color_option \<Rightarrow> string option \<Rightarrow> error \<Rightarrow> engine \<Rightarrow> engine" where
  "rolledBack c previousColor e s =
     notified ''error''
       (PError ''user'' (''Failed to change color to '' @ color_name c) (ErrorObject e))
       (notified ''colorChanged'' (PId previousColor)
          (s\<lparr>currentState := (currentState s)\<lparr>color := previousColor\<rparr>\<rparr>))"

section \<open>Tick-wise invariants of floating promises\<close>

text \<open>
  When promises are left floating, the ticks of several of them interleave. The predicates
  of this section describe one promise in any such interleaving, relative to an invariant
  \<open>I\<close> of the engine that every tick finds and has to leave true. \<open>keeps I Q p\<close>: no tick of
  \<open>p\<close> changes the selection, and \<open>p\<close> settles with an outcome in \<open>Q\<close>. \<open>snaps I p\<close>: \<open>p\<close> is
  pending, its ticks leave the selection alone until one of them sets the strap to
  \<open>selected\<close>, and from then on it keeps the selection and is fulfilled. \<open>bound cfg m\<close> is the
  invariant used: the configuration and the material references are the given ones.
  \<open>pool\<close> describes the two promises that \<open>reset\<close> and \<open>applyURLParameters\<close> leave behind.
\<close>

primrec fulfilled :: "'a outcome \<Rightarrow> bool" where
  "fulfilled (Fulfilled v) = True"
| "fulfilled (Rejected e) = False"

primrec keeps :: "(engine \<Rightarrow> bool) \<Rightarrow> ('a outcome \<Rightarrow> bool) \<Rightarrow> (engine, 'a) promise \<Rightarrow> bool" where
  "keeps I Q (Settled r) = Q r"
| "keeps I Q (Pending f) =
     (\<forall>s. I s \<longrightarrow>
        (case map_prod id (keeps I Q) (f s) of
           (s1, rest) \<Rightarrow> I s1 \<and> currentState s1 = currentState s \<and> rest))"

definition keepsA ::
  "(engine \<Rightarrow> bool) \<Rightarrow> ('a outcome \<Rightarrow> bool) \<Rightarrow> 'a js \<Rightarrow> engine \<Rightarrow> bool" where
  "keepsA I Q m s =
     (case m s of (s1, p) \<Rightarrow> I s1 \<and> currentState s1 = currentState s \<and> keeps I Q p)"

primrec snaps :: "(engine \<Rightarrow> bool) \<Rightarrow> (engine, 'a) promise \<Rightarrow> bool" where
  "snaps I (Settled r) = False"
| "snaps I (Pending f) =
     (\<forall>s. I s \<longrightarrow>
        (case (f s, map_prod id (snaps I) (f s)) of
           ((s1, p), (s2, rest)) \<Rightarrow>
              I s1 \<and>
              (currentState s1 = currentState s \<and> rest \<or>
               currentState s1 = (currentState s)\<lparr>strap := Some ''selected''\<rparr> \<and>
               keeps I fulfilled p)))"

definition snapsA :: "(engine \<Rightarrow> bool) \<Rightarrow> 'a js \<Rightarrow> engine \<Rightarrow> bool" where
  "snapsA I m s =
     (case m s of (s1, p) \<Rightarrow>
        I s1 \<and>
        (currentState s1 = currentState s \<and> snaps I p \<or>
         currentState s1 = (currentState s)\<lparr>strap := Some ''selected''\<rparr> \<and>
         keeps I fulfilled p))"

definition bound :: "configuration \<Rightarrow> material_refs \<Rightarrow> engine \<Rightarrow> bool" where
  "bound cfg m s = (config s = cfg \<and> materials s = Some m)"

definition accepting :: "material_refs \<Rightarrow> bool" where
  "accepting m =
     (\<forall>ch tex. setTexture_throws (mat_primary m) ch tex = None \<and>
               setTexture_throws (mat_secondary m) ch tex = None \<and>
               setTexture_throws (mat_accent m) ch tex = None)"

abbreviation anyhow :: "'a outcome \<Rightarrow> bool" where
  "anyhow \<equiv> (\<lambda>r. True)"

definition pool ::
  "(engine \<Rightarrow> bool) \<Rightarrow> engine \<Rightarrow> (engine, unit) promise list \<Rightarrow> bool" where
  "pool I s ps =
     (\<exists>t1 t2. ps = [t1, t2] \<and> I s \<and> keeps I anyhow t2 \<and>
        (snaps I t1 \<or> strap (currentState s) = Some ''selected'' \<and> keeps I fulfilled t1))"

section \<open>An example configuration\<close>

text \<open>
  Two colours, the dynamic strap \<open>selected\<close> and a fixed one, two environments, and a viewer
  whose model has the three materials, accepts every texture and loads every path.
  \<open>demo_ready\<close> is the engine after a successful initialization on \<open>demo_page\<close>, its
  textures loaded before the timers set on the way have run. The other
  examples vary it: a primary material that rejects textures, a viewer that cannot load
  any, a model without the accent material, a default strap other than \<open>selected\<close>, a page
  served over plain HTTP to a window 400 pixels wide. The callbacks: one that unsubscribes
  itself when it is called, one that does nothing, one that throws; \<open>demo_leaving\<close> and
  \<open>demo_throwing\<close> are the engine with two of them subscribed to \<open>colorChanged\<close>.
\<close>

definition demo_red :: color_option where
  "demo_red = \<lparr> color_id = ''red'', color_name = ''Red'', color_preview = ''red.jpg'',
       textures = \<lparr> tex_primary = ''red_primary.jpg'', tex_accent = ''red_accent.jpg'',
                    tex_roughness = ''roughness.jpg'' \<rparr> \<rparr>"

definition demo_blue :: color_option where
  "demo_blue = \<lparr> color_id = ''blue'', color_name = ''Blue'', color_preview = ''blue.jpg'',
       textures = \<lparr> tex_primary = ''blue_primary.jpg'', tex_accent = ''blue_accent.jpg'',
                    tex_roughness = ''roughness.jpg'' \<rparr> \<rparr>"

definition demo_config :: configuration where
  "demo_config =
     \<lparr> product_materials =
         \<lparr> name_primary = ''TkaninaMat'', name_secondary = ''KaiseviMat'', name_accent = ''Kais'' \<rparr>,
       colors = [demo_red, demo_blue],
       straps =
         [\<lparr> strap_id = ''selected'', strap_name = ''Match'', strap_type = Some ''dynamic'',
            strap_texture = None \<rparr>,
          \<lparr> strap_id = ''orange'', strap_name = ''Orange'', strap_type = None,
            strap_texture = Some ''orange.jpg'' \<rparr>],
       environments =
         [\<lparr> env_id = ''studio'', env_name = ''Studio'', env_gradient = ''grey'',
            env_background = ''white'' \<rparr>,
          \<lparr> env_id = ''beach'', env_name = ''Beach'', env_gradient = ''sand'',
            env_background = ''blue'' \<rparr>],
       defaultColor = Some ''red'',
       defaultStrap = Some ''selected'',
       defaultEnvironment = Some ''studio'',
       defaults = None \<rparr>"

definition demo_material :: "string \<Rightarrow> material" where
  "demo_material n = \<lparr> mat_name = n, setTexture_throws = (\<lambda>ch tex. None) \<rparr>"

definition demo_viewer :: viewer where
  "demo_viewer =
     \<lparr> model = Some [demo_material ''TkaninaMat'', demo_material ''KaiseviMat'',
                     demo_material ''Kais''],
       createTexture_result = (\<lambda>n url. Inr n) \<rparr>"

definition demo_page :: page where
  "demo_page =
     \<lparr> library_defined = True, library_arrives = True, container_present = True,
       container_has_size = True, container_gets_size = True,
       created_viewer = demo_viewer, model_already_loaded = False, model_load = LoadEvent \<rparr>"

definition demo_ready :: engine where
  "demo_ready = fst (run (initialize demo_page) (constructor demo_config))"

definition demo_rejecting_material :: material where
  "demo_rejecting_material =
     \<lparr> mat_name = ''TkaninaMat'',
       setTexture_throws = (\<lambda>ch tex. Some (Error ''texture rejected'')) \<rparr>"

definition demo_rejecting :: engine where
  "demo_rejecting =
     demo_ready\<lparr> materials := Some \<lparr> mat_primary = demo_rejecting_material,
                                       mat_secondary = demo_material ''KaiseviMat'',
                                       mat_accent = demo_material ''Kais'' \<rparr> \<rparr>"

definition demo_offline :: engine where
  "demo_offline =
     demo_ready\<lparr> modelViewer :=
       Some (demo_viewer\<lparr> createTexture_result := (\<lambda>n url. Inl (Error ''404 Not Found'')) \<rparr>) \<rparr>"

definition demo_once :: engine where
  "demo_once = fst (run (changeColor (Some ''red'')) demo_ready)"

definition demo_twice :: engine where
  "demo_twice = fst (run (changeColor (Some ''red'')) demo_once)"

definition demo_page_missing :: page where
  "demo_page_missing =
     demo_page\<lparr> created_viewer :=
       demo_viewer\<lparr> model := Some [demo_material ''TkaninaMat'', demo_material ''KaiseviMat''] \<rparr> \<rparr>"

definition demo_config_orange :: configuration where
  "demo_config_orange = demo_config\<lparr> defaultStrap := Some ''orange'' \<rparr>"

definition demo_orange :: engine where
  "demo_orange = fst (run (initialize demo_page) (constructor demo_config_orange))"

definition demo_shared :: engine where
  "demo_shared = fst (run (changeStrap (Some ''orange'')) demo_ready)"

definition demo_leaver :: listener where
  "demo_leaver = \<lparr> lid = 10, react = (\<lambda>data. [Unsubscribe ''colorChanged'' 10]) \<rparr>"

definition demo_stayer :: listener where
  "demo_stayer = \<lparr> lid = 11, react = (\<lambda>data. []) \<rparr>"

definition demo_thrower :: listener where
  "demo_thrower = \<lparr> lid = 12, react = (\<lambda>data. [Throw (Error ''callback failed'')]) \<rparr>"

definition demo_leaving :: engine where
  "demo_leaving =
     fst (run (aseq (subscribe ''colorChanged'' demo_leaver)
                    (subscribe ''colorChanged'' demo_stayer)) demo_ready)"

definition demo_throwing :: engine where
  "demo_throwing =
     fst (run (aseq (subscribe ''colorChanged'' demo_thrower)
                    (subscribe ''colorChanged'' demo_stayer)) demo_ready)"

definition demo_host :: host where
  "demo_host =
     \<lparr> innerWidth = 400, ontouchstart = False,
       userAgent = ''Mozilla/5.0 (X11; Linux x86_64) Gecko/20100101 Firefox/120.0'',
       platform = ''Linux x86_64'', maxTouchPoints = 0, vendor = [],
       protocol = ''http:'', hostname = ''example.com'',
       xr = None, webkit = None, androidInterface = False \<rparr>"

section \<open>Laws of awaited runs\<close>

lemma run_areturn [simp]: "run (areturn v) s = (s, Fulfilled v)"
  by (simp add: run_def areturn_def)

lemma run_athrow [simp]: "run (athrow e) s = (s, Rejected e)"
  by (simp add: run_def athrow_def)

lemma run_gets [simp]: "run (gets f) s = (s, Fulfilled (f s))"
  by (simp add: run_def gets_def)

lemma run_modify [simp]: "run (modify f) s = (f s, Fulfilled ())"
  by (simp add: run_def modify_def)

lemma settle_step:
  "(case map_prod id settle x of (s1, g) \<Rightarrow> g s1) = (case x of (s1, q) \<Rightarrow> settle q s1)"
  by (cases x) simp

lemma settle_awaitp [simp]: "settle (awaitp p) s = settle p s"
proof (induction p arbitrary: s)
  case (Settled r)
  show ?case by simp
next
  case (Pending f)
  obtain s1 q where fs: "f s = (s1, q)" by (cases "f s")
  have "settle (awaitp q) s1 = settle q s1"
    by (rule Pending.IH [OF rangeI [of f s]]) (simp add: fs)
  then show ?case by (simp add: fs)
qed

lemma run_await [simp]: "run (await m) s = run m s"
  by (cases "m s") (simp add: run_def await_def)

lemma settle_pbind:
  "(case pbind p k s of (s1, q) \<Rightarrow> settle q s1) =
   (case settle p s of
      (s1, Fulfilled v) \<Rightarrow> run (k v) s1
    | (s1, Rejected e) \<Rightarrow> (s1, Rejected e))"
proof (induction p arbitrary: s)
  case (Settled r)
  show ?case by (cases r) (simp_all add: run_def athrow_def)
next
  case (Pending f)
  obtain s1 q where fs: "f s = (s1, q)" by (cases "f s")
  have "(case pbind q k s1 of (s2, q') \<Rightarrow> settle q' s2) =
        (case settle q s1 of
           (s2, Fulfilled v) \<Rightarrow> run (k v) s2
         | (s2, Rejected e) \<Rightarrow> (s2, Rejected e))"
    by (rule Pending.IH [OF rangeI [of f s]]) (simp add: fs)
  then show ?case by (simp add: fs settle_step)
qed

lemma run_abind:
  "run (abind m k) s =
   (case run m s of
      (s1, Fulfilled v) \<Rightarrow> run (k v) s1
    | (s1, Rejected e) \<Rightarrow> (s1, Rejected e))"
  by (cases "m s") (simp add: run_def [of "abind m k"] run_def [of m] abind_def settle_pbind)

lemma run_aseq:
  "run (aseq m n) s =
   (case run m s of
      (s1, Fulfilled v) \<Rightarrow> run n s1
    | (s1, Rejected e) \<Rightarrow> (s1, Rejected e))"
  by (simp add: aseq_def run_abind)

lemma settle_pcatch:
  "(case pcatch p h s of (s1, q) \<Rightarrow> settle q s1) =
   (case settle p s of
      (s1, Fulfilled v) \<Rightarrow> (s1, Fulfilled v)
    | (s1, Rejected e) \<Rightarrow> run (h e) s1)"
proof (induction p arbitrary: s)
  case (Settled r)
  show ?case by (cases r) (simp_all add: run_def areturn_def)
next
  case (Pending f)
  obtain s1 q where fs: "f s = (s1, q)" by (cases "f s")
  have "(case pcatch q h s1 of (s2, q') \<Rightarrow> settle q' s2) =
        (case settle q s1 of
           (s2, Fulfilled v) \<Rightarrow> (s2, Fulfilled v)
         | (s2, Rejected e) \<Rightarrow> run (h e) s2)"
    by (rule Pending.IH [OF rangeI [of f s]]) (simp add: fs)
  then show ?case by (simp add: fs settle_step)
qed

lemma run_atry:
  "run (atry m h) s =
   (case run m s of
      (s1, Fulfilled v) \<Rightarrow> (s1, Fulfilled v)
    | (s1, Rejected e) \<Rightarrow> run (h e) s1)"
  by (cases "m s") (simp add: run_def [of "atry m h"] run_def [of m] atry_def settle_pcatch)

lemma abind_sync:
  "m s = (s1, Settled (Fulfilled v)) \<Longrightarrow> abind m k s = k v s1"
  by (simp add: abind_def)

lemma aseq_sync:
  "m s = (s1, Settled (Fulfilled v)) \<Longrightarrow> aseq m n s = n s1"
  by (simp add: aseq_def abind_def)

lemma perform_sync:
  "\<exists>s' r. perform a s = (s', Settled r) \<and> apart s' = apart s \<and> delivered s' = delivered s"
  by (cases a)
     (auto simp: athrow_def subscribe_def unsubscribe_def aseq_def abind_def modify_def apart_def
        split: option.splits)

lemma forEach_perform_sync:
  "\<exists>s' r. forEach perform as s = (s', Settled r) \<and> apart s' = apart s \<and>
     delivered s' = delivered s"
proof (induction as arbitrary: s)
  case Nil
  show ?case by (simp add: areturn_def)
next
  case (Cons a as)
  from perform_sync [of a s] obtain s1 r1
    where a: "perform a s = (s1, Settled r1)" "apart s1 = apart s" "delivered s1 = delivered s"
    by blast
  from Cons.IH [of s1] obtain s2 r2
    where b: "forEach perform as s1 = (s2, Settled r2)" "apart s2 = apart s1"
      "delivered s2 = delivered s1"
    by blast
  from a b show ?case
    by (cases r1) (simp_all add: aseq_def abind_def athrow_def)
qed

lemma call_listener_caught:
  "\<exists>s'. atry (call_listener cb event data) (\<lambda>error. areturn ()) s = (s', Settled (Fulfilled ())) \<and>
     apart s' = apart s \<and> delivered s' = delivered s @ [(lid cb, event, data)]"
proof -
  let ?s1 = "s\<lparr>delivered := delivered s @ [(lid cb, event, data)]\<rparr>"
  from forEach_perform_sync [of "react cb data" ?s1] obtain s2 r2
    where b: "forEach perform (react cb data) ?s1 = (s2, Settled r2)" "apart s2 = apart ?s1"
      "delivered s2 = delivered ?s1"
    by blast
  have "apart ?s1 = apart s" by (simp add: apart_def)
  with b show ?thesis
    by (cases r2; cases "r2 = Fulfilled ()")
       (simp_all add: atry_def call_listener_def aseq_def abind_def modify_def areturn_def)
qed

lemma forEachIndex_listeners:
  "\<exists>s'. forEachIndex
          (\<lambda>k. abind (gets (listenersOf event)) (\<lambda>now.
                 if k < length now then
                   atry (call_listener (now ! k) event data) (\<lambda>error. areturn ())
                 else areturn ()))
          k n s = (s', Settled (Fulfilled ())) \<and> apart s' = apart s"
proof (induction n arbitrary: k s)
  case 0
  show ?case by (simp add: areturn_def)
next
  case (Suc n)
  let ?f = "\<lambda>k. abind (gets (listenersOf event)) (\<lambda>now.
                 if k < length now then
                   atry (call_listener (now ! k) event data) (\<lambda>error. areturn ())
                 else areturn ())"
  have "\<exists>s1. ?f k s = (s1, Settled (Fulfilled ())) \<and> apart s1 = apart s"
    using call_listener_caught [of "listenersOf event s ! k" event data s]
    by (auto simp: abind_def gets_def areturn_def)
  then obtain s1 where a: "?f k s = (s1, Settled (Fulfilled ()))" "apart s1 = apart s"
    by blast
  from Suc.IH [of "Suc k" s1] obtain s2
    where b: "forEachIndex ?f (Suc k) n s1 = (s2, Settled (Fulfilled ()))" "apart s2 = apart s1"
    by blast
  from a b show ?case
    by (simp add: aseq_sync [where m = "?f k", OF a(1)])
qed

lemma notifyListeners_settled:
  "\<exists>s'. notifyListeners event data s = (s', Settled (Fulfilled ())) \<and>
     apart s' = apart (s\<lparr>emitted := emitted s @ [(event, data)]\<rparr>)"
proof (cases "eventListeners s event")
  case None
  then show ?thesis
    by (simp add: notifyListeners_def aseq_def abind_def modify_def gets_def areturn_def)
next
  case (Some cbs)
  let ?s1 = "s\<lparr>emitted := emitted s @ [(event, data)]\<rparr>"
  from forEachIndex_listeners [of event data 0 "length cbs" ?s1] Some show ?thesis
    by (simp add: notifyListeners_def aseq_def abind_def modify_def gets_def)
qed

lemma notifyListeners_sync:
  "notifyListeners event data s = (notified event data s, Settled (Fulfilled ()))"
  using notifyListeners_settled [of event data s] by (auto simp: notified_def)

lemma apart_notified:
  "apart (notified event data s) = apart (s\<lparr>emitted := emitted s @ [(event, data)]\<rparr>)"
  using notifyListeners_settled [of event data s] by (auto simp: notified_def)

lemma notified_fields [simp]:
  "config (notified event data s) = config s"
  "modelViewer (notified event data s) = modelViewer s"
  "materials (notified event data s) = materials s"
  "currentState (notified event data s) = currentState s"
  "isReady (notified event data s) = isReady s"
  "textureCache (notified event data s) = textureCache s"
  "isIdleRotating (notified event data s) = isIdleRotating s"
  "emitted (notified event data s) = emitted s @ [(event, data)]"
  "loads (notified event data s) = loads s"
  "applied (notified event data s) = applied s"
  "envElements (notified event data s) = envElements s"
  "viewerEvents (notified event data s) = viewerEvents s"
  "timers (notified event data s) = timers s"
  using apart_notified [of event data s] by (simp_all add: apart_def)

lemma notified_unheard:
  "eventListeners s event = None \<Longrightarrow>
   notified event data s = s\<lparr>emitted := emitted s @ [(event, data)]\<rparr>"
  by (simp add: notified_def notifyListeners_def aseq_def abind_def modify_def gets_def
        areturn_def)

lemma forEach_throwing:
  "list_all throwing as \<Longrightarrow> \<exists>r. forEach perform as s = (s, Settled r)"
proof (induction as)
  case Nil
  show ?case by (simp add: areturn_def)
next
  case (Cons a as)
  then obtain e where "a = Throw e" by (cases a) simp_all
  then show ?case by (simp add: aseq_def abind_def athrow_def)
qed

lemma call_listener_quiet:
  assumes "quiet cb data"
  shows "atry (call_listener cb event data) (\<lambda>error. areturn ()) s =
     (s\<lparr>delivered := delivered s @ [(lid cb, event, data)]\<rparr>, Settled (Fulfilled ()))"
proof -
  let ?s1 = "s\<lparr>delivered := delivered s @ [(lid cb, event, data)]\<rparr>"
  from assms forEach_throwing [of "react cb data" ?s1] obtain r
    where "forEach perform (react cb data) ?s1 = (?s1, Settled r)"
    by (auto simp: quiet_def)
  then show ?thesis
    by (cases r; cases "r = Fulfilled ()")
       (simp_all add: atry_def call_listener_def aseq_def abind_def modify_def areturn_def)
qed

lemma forEachIndex_quiet:
  assumes "listenersOf event s = cbs" and "\<forall>cb \<in> set cbs. quiet cb data"
      and "k + n \<le> length cbs"
  shows "forEachIndex
          (\<lambda>k. abind (gets (listenersOf event)) (\<lambda>now.
                 if k < length now then
                   atry (call_listener (now ! k) event data) (\<lambda>error. areturn ())
                 else areturn ()))
          k n s =
     (s\<lparr>delivered := delivered s @ map (\<lambda>cb. (lid cb, event, data)) (take n (drop k cbs))\<rparr>,
      Settled (Fulfilled ()))"
  using assms
proof (induction n arbitrary: k s)
  case 0
  show ?case by (simp add: areturn_def)
next
  case (Suc n)
  let ?f = "\<lambda>k. abind (gets (listenersOf event)) (\<lambda>now.
                 if k < length now then
                   atry (call_listener (now ! k) event data) (\<lambda>error. areturn ())
                 else areturn ())"
  let ?s1 = "s\<lparr>delivered := delivered s @ [(lid (cbs ! k), event, data)]\<rparr>"
  from Suc.prems have k: "k < length cbs" by simp
  with Suc.prems have q: "quiet (cbs ! k) data" by simp
  have a: "?f k s = (?s1, Settled (Fulfilled ()))"
    using Suc.prems(1) k by (simp add: abind_def gets_def call_listener_quiet [OF q])
  have l1: "listenersOf event ?s1 = cbs"
    using Suc.prems(1) by (simp add: listenersOf_def)
  from Suc.prems have "Suc k + n \<le> length cbs" by simp
  from Suc.IH [OF l1 Suc.prems(2) this]
  have b: "forEachIndex ?f (Suc k) n ?s1 =
      (?s1\<lparr>delivered := delivered ?s1 @
          map (\<lambda>cb. (lid cb, event, data)) (take n (drop (Suc k) cbs))\<rparr>,
       Settled (Fulfilled ()))" .
  have "take (Suc n) (drop k cbs) = cbs ! k # take n (drop (Suc k) cbs)"
    using k by (simp add: Cons_nth_drop_Suc [symmetric])
  with b show ?case
    by (simp add: aseq_sync [where m = "?f k", OF a])
qed

lemma notifyListeners_quiet:
  assumes "\<forall>cb \<in> set (listenersOf event s). quiet cb data"
  shows "notifyListeners event data s =
     (s\<lparr>emitted := emitted s @ [(event, data)],
        delivered := delivered s @ map (\<lambda>cb. (lid cb, event, data)) (listenersOf event s)\<rparr>,
      Settled (Fulfilled ()))"
proof (cases "eventListeners s event")
  case None
  then show ?thesis
    by (simp add: notifyListeners_def listenersOf_def aseq_def abind_def modify_def gets_def
          areturn_def)
next
  case (Some cbs)
  let ?s1 = "s\<lparr>emitted := emitted s @ [(event, data)]\<rparr>"
  from Some have l: "listenersOf event s = cbs" by (simp add: listenersOf_def)
  then have l1: "listenersOf event ?s1 = cbs" by (simp add: listenersOf_def)
  from assms l have q: "\<forall>cb \<in> set cbs. quiet cb data" by simp
  from forEachIndex_quiet [OF l1 q, of 0 "length cbs"] Some l show ?thesis
    by (simp add: notifyListeners_def aseq_def abind_def modify_def gets_def)
qed

lemma run_notifyListeners [simp]:
  "run (notifyListeners event data) s = (notified event data s, Fulfilled ())"
  by (simp add: run_def notifyListeners_sync)

lemma run_later [simp]: "run (later m) s = run m s"
  by (cases "m s") (simp add: run_def later_def)

lemma run_createTexture:
  "run (createTexture url) s =
   (case modelViewer s of
      None \<Rightarrow> (s, Rejected (TypeError ''Cannot read properties of null (reading 'createTexture')''))
    | Some v \<Rightarrow>
        (s\<lparr>loads := loads s @ [url]\<rparr>,
         case createTexture_result v (length (loads s)) url of
           Inl e \<Rightarrow> Rejected e | Inr t \<Rightarrow> Fulfilled t))"
  by (simp add: createTexture_def run_abind run_aseq split: option.splits sum.splits)

lemma run_preloadTexture:
  "run (preloadTexture url) s = (fst (fetched url s), Fulfilled (snd (fetched url s)))"
  by (simp add: preloadTexture_def fetched_def run_abind run_aseq run_atry run_createTexture
      split: option.splits sum.splits)

lemma run_getTexture:
  "run (getTexture url) s = (fst (fetched url s), Fulfilled (snd (fetched url s)))"
  by (simp add: getTexture_def run_abind run_preloadTexture fetched_def
      split: option.splits sum.splits)

lemma frameI: "(\<And>s s' r. run m s = (s', r) \<Longrightarrow> core s' = core s) \<Longrightarrow> frame m"
  by (simp add: frame_def)

lemma frameD: "frame m \<Longrightarrow> run m s = (s', r) \<Longrightarrow> core s' = core s"
  by (simp add: frame_def)

lemma frame_areturn [intro!]: "frame (areturn v)" by (simp add: frame_def)
lemma frame_athrow [intro!]: "frame (athrow e)" by (simp add: frame_def)
lemma frame_gets [intro!]: "frame (gets f)" by (simp add: frame_def)
lemma frame_await [intro!]: "frame m \<Longrightarrow> frame (await m)" by (simp add: frame_def)

lemma frame_abind [intro!]:
  assumes "frame m" and "\<And>v. frame (k v)"
  shows "frame (abind m k)"
proof (rule frameI)
  fix s s' r assume r: "run (abind m k) s = (s', r)"
  obtain s1 r1 where m: "run m s = (s1, r1)" by (cases "run m s")
  have c1: "core s1 = core s" using assms(1) m by (rule frameD)
  show "core s' = core s"
  proof (cases r1)
    case (Fulfilled v)
    with r m have "run (k v) s1 = (s', r)" by (simp add: run_abind)
    with assms(2) have "core s' = core s1" by (rule frameD)
    with c1 show ?thesis by simp
  next
    case (Rejected e)
    with r m c1 show ?thesis by (simp add: run_abind)
  qed
qed

lemma frame_aseq [intro!]: "frame m \<Longrightarrow> frame n \<Longrightarrow> frame (aseq m n)"
  unfolding aseq_def by (rule frame_abind)

lemma frame_atry [intro!]:
  assumes "frame m" and "\<And>e. frame (h e)"
  shows "frame (atry m h)"
proof (rule frameI)
  fix s s' r assume r: "run (atry m h) s = (s', r)"
  obtain s1 r1 where m: "run m s = (s1, r1)" by (cases "run m s")
  have c1: "core s1 = core s" using assms(1) m by (rule frameD)
  show "core s' = core s"
  proof (cases r1)
    case (Fulfilled v)
    with r m c1 show ?thesis by (simp add: run_atry)
  next
    case (Rejected e)
    with r m have "run (h e) s1 = (s', r)" by (simp add: run_atry)
    with assms(2) have "core s' = core s1" by (rule frameD)
    with c1 show ?thesis by simp
  qed
qed

lemma frame_getTexture [intro!]: "frame (getTexture url)"
  by (rule frameI) (auto simp: run_getTexture fetched_def core_def split: option.splits sum.splits)

lemma frame_setTexture [intro!]: "frame (setTexture m ch tex)"
  by (rule frameI) (auto simp: setTexture_def core_def split: option.splits)

lemma frame_applyColorTextures [intro!]: "frame (applyColorTextures c)"
  unfolding applyColorTextures_def by (auto split: option.splits)

lemma frame_applyStrapConfiguration [intro!]: "frame (applyStrapConfiguration strapId)"
  unfolding applyStrapConfiguration_def by (auto split: option.splits)

section \<open>Sequential runs of the selection changes\<close>

lemma run_changeColor_unknown:
  "find (\<lambda>c. Some (color_id c) = colorId) (colors (config s)) = None \<Longrightarrow>
   changeColor colorId s = (s, Settled (Fulfilled ()))"
  by (simp add: changeColor_def abind_def gets_def areturn_def)

lemma run_changeColor_known:
  assumes "find (\<lambda>c. Some (color_id c) = colorId) (colors (config s)) = Some c"
  shows "run (changeColor colorId) s =
     (case run (textureApply c) (optimistic colorId s) of
        (s2, Fulfilled u) \<Rightarrow> (notified ''strapChanged'' (PId (Some ''selected'')) s2, Fulfilled ())
      | (s2, Rejected e) \<Rightarrow> (rolledBack c (color (currentState s)) e s2, Fulfilled ()))"
  using assms
  by (simp add: changeColor_def textureApply_def optimistic_def rolledBack_def
        run_abind run_aseq run_atry
      split: prod.splits outcome.splits)

lemma textureApply_core:
  assumes "run (textureApply c) s = (s', r)"
  shows "config s' = config s \<and> emitted s' = emitted s \<and> delivered s' = delivered s \<and>
         eventListeners s' = eventListeners s \<and> materials s' = materials s \<and>
         modelViewer s' = modelViewer s \<and> isReady s' = isReady s \<and>
         color (currentState s') = color (currentState s) \<and>
         environment (currentState s') = environment (currentState s) \<and>
         (r = Fulfilled () \<longrightarrow> strap (currentState s') = Some ''selected'')"
proof -
  obtain s1 r1 where a: "run (applyColorTextures c) s = (s1, r1)"
    by (cases "run (applyColorTextures c) s")
  have c1: "core s1 = core s" using frame_applyColorTextures a by (rule frameD)
  show ?thesis
  proof (cases r1)
    case (Rejected e)
    with assms a c1 show ?thesis
      by (auto simp: textureApply_def run_aseq core_def)
  next
    case (Fulfilled u)
    let ?s2 = "s1\<lparr>currentState := (currentState s1)\<lparr>strap := Some ''selected''\<rparr>\<rparr>"
    from Fulfilled assms a
    have b: "run (applyStrapConfiguration (Some ''selected'')) ?s2 = (s', r)"
      by (simp add: textureApply_def run_aseq)
    have "core s' = core ?s2" using frame_applyStrapConfiguration b by (rule frameD)
    with c1 show ?thesis by (auto simp: core_def)
  qed
qed

lemma find_color_present:
  assumes "colorId \<in> color_id ` set (colors cfg)"
  obtains c where "find (\<lambda>c. Some (color_id c) = Some colorId) (colors cfg) = Some c"
proof -
  from assms have "\<exists>x. x \<in> set (colors cfg) \<and> Some (color_id x) = Some colorId"
    by auto
  then have "find (\<lambda>c. Some (color_id c) = Some colorId) (colors cfg) \<noteq> None"
    by (simp add: find_None_iff)
  then show ?thesis using that by blast
qed

lemma fetched_cached: "textureCache s url = Some t \<Longrightarrow> fetched url s = (s, Some t)"
  by (simp add: fetched_def)

lemma textureApply_cached:
  assumes "textureCache s (tex_primary (textures c)) = Some t1"
      and "textureCache s (tex_accent (textures c)) = Some t2"
      and "textureCache s (tex_roughness (textures c)) = Some t3"
      and "find (\<lambda>c'. Some (color_id c') = color (currentState s)) (colors (config s)) = Some c"
  shows "loads (fst (run (textureApply c) s)) = loads s"
proof (cases "materials s")
  case None
  then show ?thesis
    by (simp add: textureApply_def applyColorTextures_def run_abind run_aseq)
next
  case (Some m)
  then show ?thesis
    using assms
    by (simp add: textureApply_def applyColorTextures_def applyStrapConfiguration_def
          strapTextureOf_def truthy_def
          run_abind run_aseq run_getTexture fetched_cached setTexture_def
        split: option.splits prod.splits)
qed

lemma changeColor_effect:
  assumes c: "find (\<lambda>c. Some (color_id c) = colorId) (colors (config s)) = Some c"
      and settled: "run (changeColor colorId) s = (s', r)"
      and success: "''error'' \<notin> fst ` set (drop (length (emitted s)) (emitted s'))"
  shows "snd (run (textureApply c) (optimistic colorId s)) = Fulfilled () \<and>
         s' = notified ''strapChanged'' (PId (Some ''selected''))
                (fst (run (textureApply c) (optimistic colorId s)))"
proof -
  obtain s2 r2 where t: "run (textureApply c) (optimistic colorId s) = (s2, r2)"
    by (cases "run (textureApply c) (optimistic colorId s)")
  note core = textureApply_core [OF t]
  show ?thesis
  proof (cases r2)
    case (Rejected e)
    with settled c t have "s' = rolledBack c (color (currentState s)) e s2"
      by (simp add: run_changeColor_known)
    with core have "(''error'', PError ''user'' (''Failed to change color to '' @ color_name c)
        (ErrorObject e)) \<in> set (drop (length (emitted s)) (emitted s'))"
      by (simp add: rolledBack_def optimistic_def)
    then have "''error'' \<in> fst ` set (drop (length (emitted s)) (emitted s'))"
      by force
    with success show ?thesis by simp
  next
    case (Fulfilled u)
    with settled c t show ?thesis
      by (simp add: run_changeColor_known)
  qed
qed

lemma changeColor_settled:
  assumes c: "find (\<lambda>c. Some (color_id c) = colorId) (colors (config s)) = Some c"
      and settled: "run (changeColor colorId) s = (s', r)"
      and success: "''error'' \<notin> fst ` set (drop (length (emitted s)) (emitted s'))"
  shows "currentState s' = \<lparr> color = colorId, strap = Some ''selected'',
                              environment = environment (currentState s) \<rparr> \<and>
         drop (length (emitted s)) (emitted s') =
           [(''colorChanged'', PId colorId), (''strapChanged'', PId (Some ''selected''))] \<and>
         config s' = config s"
proof -
  obtain s2 r2 where t: "run (textureApply c) (optimistic colorId s) = (s2, r2)"
    by (cases "run (textureApply c) (optimistic colorId s)")
  from changeColor_effect [OF assms] t
  have r2: "r2 = Fulfilled ()" and s': "s' = notified ''strapChanged'' (PId (Some ''selected'')) s2"
    by simp_all
  from textureApply_core [OF t] r2 s' show ?thesis
    by (simp add: optimistic_def)
qed

lemma find_absent:
  "x \<notin> Some ` f ` set xs \<Longrightarrow> find (\<lambda>c. Some (f c) = x) xs = None"
  by (auto simp: find_None_iff)

lemma run_changeStrap_unknown:
  "find (\<lambda>x. Some (strap_id x) = strapId) (straps (config s)) = None \<Longrightarrow>
   changeStrap strapId s = (s, Settled (Fulfilled ()))"
  by (simp add: changeStrap_def abind_def gets_def areturn_def)

lemma run_changeEnvironment_unknown:
  "find (\<lambda>x. Some (env_id x) = environmentId) (environments (config s)) = None \<Longrightarrow>
   changeEnvironment environmentId s = (s, Settled (Fulfilled ()))"
  by (simp add: changeEnvironment_def abind_def gets_def areturn_def)

lemma run_applyColorTextures_accepting:
  assumes "materials s = Some m"
      and "\<And>ch tex. setTexture_throws (mat_primary m) ch tex = None"
      and "\<And>ch tex. setTexture_throws (mat_secondary m) ch tex = None"
      and "\<And>ch tex. setTexture_throws (mat_accent m) ch tex = None"
  shows "snd (run (applyColorTextures c) s) = Fulfilled ()"
proof -
  have frame1: "\<And>url s. materials (fst (fetched url s)) = materials s"
    by (simp add: fetched_def split: option.splits sum.splits)
  show ?thesis
    using assms
    by (simp add: applyColorTextures_def run_abind run_aseq run_getTexture setTexture_def
          split: prod.splits)
qed

section \<open>Sequential run of the initialization\<close>

lemma run_ensureModelViewerLoaded:
  "library_defined pg \<or> library_arrives pg \<Longrightarrow>
   run (ensureModelViewerLoaded pg) s = (s, Fulfilled ())"
  by (auto simp: ensureModelViewerLoaded_def)

lemma run_ensureContainerReady:
  "container_present pg \<and> (container_has_size pg \<or> container_gets_size pg) \<Longrightarrow>
   run (ensureContainerReady pg) s = (s, Fulfilled ())"
  by (auto simp: ensureContainerReady_def)

lemma run_createModelViewer:
  "run (createModelViewer pg) s =
     (s\<lparr>modelViewer := Some (created_viewer pg), viewerEvents := True\<rparr>, Fulfilled ())"
  by (simp add: createModelViewer_def setupModelViewerEvents_def run_aseq
        run_ensureModelViewerLoaded)

lemma run_onViewerLoad:
  "modelViewer s = Some v \<Longrightarrow>
   \<exists>s'. run onViewerLoad s = (s', Fulfilled ()) \<and>
     emitted s' = emitted s @ [(''modelLoaded'', PModelLoaded (model v))] \<and>
     config s' = config s \<and> modelViewer s' = modelViewer s \<and> materials s' = materials s \<and>
     currentState s' = currentState s \<and> isReady s' = isReady s \<and>
     textureCache s' = textureCache s \<and> loads s' = loads s \<and> applied s' = applied s \<and>
     envElements s' = envElements s \<and> viewerEvents s' = viewerEvents s"
  by (simp add: onViewerLoad_def startIdleTracking_def run_abind run_aseq)

lemma run_dispatchLoad:
  "modelViewer s = Some v \<Longrightarrow> viewerEvents s \<Longrightarrow>
   \<exists>s'. run dispatchLoad s = (s', Fulfilled ()) \<and>
     emitted s' = emitted s @ [(''modelLoaded'', PModelLoaded (model v))] \<and>
     config s' = config s \<and> modelViewer s' = modelViewer s \<and> materials s' = materials s \<and>
     currentState s' = currentState s \<and> isReady s' = isReady s \<and>
     textureCache s' = textureCache s \<and> loads s' = loads s \<and> applied s' = applied s \<and>
     envElements s' = envElements s \<and> viewerEvents s' = viewerEvents s"
  using run_onViewerLoad [of s v]
  by (auto simp: dispatchLoad_def run_abind run_atry)

lemma run_waitForModelLoad:
  assumes "modelViewer s = Some v" and "viewerEvents s"
      and "model_already_loaded pg \<or> model_load pg = LoadEvent"
  shows "\<exists>s'. run (waitForModelLoad pg) s = (s', Fulfilled ()) \<and>
     emitted s' = emitted s @ [(''modelLoaded'', PModelLoaded (model v))] \<and>
     config s' = config s \<and> modelViewer s' = modelViewer s \<and> materials s' = materials s \<and>
     currentState s' = currentState s \<and> isReady s' = isReady s \<and>
     textureCache s' = textureCache s \<and> loads s' = loads s \<and> applied s' = applied s \<and>
     envElements s' = envElements s \<and> viewerEvents s' = viewerEvents s"
  using run_dispatchLoad [OF assms(1,2)] assms
  by (auto simp: waitForModelLoad_def run_abind run_aseq)

lemma run_setupMaterialReferences_missing:
  assumes "modelViewer s = Some v" and "model v = Some ms"
      and "getMaterialByName ms (name_primary (product_materials (config s))) = None \<or>
           getMaterialByName ms (name_secondary (product_materials (config s))) = None \<or>
           getMaterialByName ms (name_accent (product_materials (config s))) = None"
  shows "run setupMaterialReferences s = (s, Fulfilled ())"
  using assms
  by (auto simp: setupMaterialReferences_def run_atry run_abind split: option.splits)

lemma run_startTexturePreloading:
  "run startTexturePreloading s =
     (if isReady s then s else s\<lparr>isReady := True, timers := timers s @ [TexturePreload]\<rparr>,
      Fulfilled ())"
  by (simp add: startTexturePreloading_def run_abind run_aseq)

lemma run_applyInitialConfiguration_unset:
  "materials s = None \<Longrightarrow> run applyInitialConfiguration s = (s, Fulfilled ())"
  by (simp add: applyInitialConfiguration_def run_abind)

lemma initialize_missing:
  assumes library: "library_defined pg \<or> library_arrives pg"
      and container: "container_present pg \<and> (container_has_size pg \<or> container_gets_size pg)"
      and loaded: "model_already_loaded pg \<or> model_load pg = LoadEvent"
      and model: "model (created_viewer pg) = Some ms"
      and missing:
        "getMaterialByName ms (name_primary (product_materials (config s))) = None \<or>
         getMaterialByName ms (name_secondary (product_materials (config s))) = None \<or>
         getMaterialByName ms (name_accent (product_materials (config s))) = None"
      and unset: "materials s = None"
  shows "\<exists>s'. run (initialize pg) s = (s', Fulfilled ()) \<and>
           isReady s' \<and>
           drop (length (emitted s)) (emitted s') =
             [(''modelLoaded'', PModelLoaded (Some ms)), (''initialized'', PEngine)] \<and>
           materials s' = None \<and> applied s' = applied s \<and> loads s' = loads s"
proof -
  let ?s1 = "s\<lparr>modelViewer := Some (created_viewer pg), viewerEvents := True\<rparr>"
  from run_waitForModelLoad [of ?s1 "created_viewer pg" pg] loaded model
  obtain sL where wait: "run (waitForModelLoad pg) ?s1 = (sL, Fulfilled ())"
    and events: "emitted sL = emitted s @ [(''modelLoaded'', PModelLoaded (Some ms))]"
    and same: "config sL = config s" "modelViewer sL = Some (created_viewer pg)"
      "materials sL = materials s" "loads sL = loads s" "applied sL = applied s"
    by auto
  let ?s2 = "sL\<lparr>envElements := envElements sL @
               map (\<lambda>env. (env_id env, Some (env_id env) = environment (currentState sL)))
                   (environments (config sL))\<rparr>"
  let ?s3 = "if isReady ?s2 then ?s2
             else ?s2\<lparr>isReady := True, timers := timers ?s2 @ [TexturePreload]\<rparr>"
  have refs: "run setupMaterialReferences sL = (sL, Fulfilled ())"
    using model missing same
    by (intro run_setupMaterialReferences_missing [where ms = ms]) simp_all
  have envs: "run setupEnvironments sL = (?s2, Fulfilled ())"
    by (simp add: setupEnvironments_def)
  have "run (initialize pg) s =
      (notified ''initialized'' PEngine (?s3\<lparr>isReady := True\<rparr>), Fulfilled ())"
    by (simp add: initialize_def run_atry run_aseq run_ensureModelViewerLoaded [OF library]
          run_ensureContainerReady [OF container] run_createModelViewer wait refs envs
          run_startTexturePreloading run_applyInitialConfiguration_unset unset same)
  moreover have "isReady (notified ''initialized'' PEngine (?s3\<lparr>isReady := True\<rparr>))"
    by simp
  moreover have "drop (length (emitted s))
      (emitted (notified ''initialized'' PEngine (?s3\<lparr>isReady := True\<rparr>))) =
        [(''modelLoaded'', PModelLoaded (Some ms)), (''initialized'', PEngine)]"
    by (simp add: events)
  moreover have "materials (notified ''initialized'' PEngine (?s3\<lparr>isReady := True\<rparr>)) = None"
    using unset same by simp
  moreover have "applied (notified ''initialized'' PEngine (?s3\<lparr>isReady := True\<rparr>)) = applied s"
    using same by simp
  moreover have "loads (notified ''initialized'' PEngine (?s3\<lparr>isReady := True\<rparr>)) = loads s"
    using same by simp
  ultimately show ?thesis by blast
qed

lemma checkARSupport_result:
  "checkARSupport h =
     (h, Settled (Fulfilled
        (let caps = getCapabilities h;
             support = \<lparr> supported = False, mode = None, reason = None,
                         support_capabilities = caps \<rparr>
         in if \<not> cap_isHTTPS caps then
              support\<lparr>reason := Some ''AR requires HTTPS connection''\<rparr>
            else if \<not> cap_isiOS caps \<and> \<not> cap_isAndroid caps then
              support\<lparr>reason := Some ''AR is only supported on iOS and Android devices''\<rparr>
            else if cap_isiOS caps \<and> cap_iosVersion caps < 12 then
              support\<lparr>reason := Some ''AR requires iOS 12 or later''\<rparr>
            else if cap_isAndroid caps \<and> cap_androidVersion caps < 7 then
              support\<lparr>reason := Some ''AR requires Android 7.0 or later''\<rparr>
            else if cap_hasWebXR caps \<or> cap_hasARCore caps \<or> cap_hasARKit caps then
              support\<lparr>supported := True, mode := getARMode h\<rparr>
            else
              support\<lparr>reason := Some ''AR not supported by this browser or device''\<rparr>)))"
  by (simp add: checkARSupport_def abind_def gets_def areturn_def Let_def)

section \<open>The example, evaluated\<close>

lemmas demo_defs = demo_config_def demo_red_def demo_blue_def demo_viewer_def
  demo_material_def demo_page_def constructor_def declaredColor_def declaredStrap_def
  declaredEnvironment_def js_or_def truthy_def

lemmas run_simps = run_abind run_aseq run_atry run_getTexture fetched_def setTexture_def
  applyColorTextures_def applyStrapConfiguration_def strapTextureOf_def notified_unheard

lemmas init_simps = initialize_def ensureModelViewerLoaded_def ensureContainerReady_def
  createModelViewer_def setupModelViewerEvents_def waitForModelLoad_def dispatchLoad_def
  onViewerLoad_def startIdleTracking_def setupMaterialReferences_def getMaterialByName_def
  setupEnvironments_def startTexturePreloading_def applyInitialConfiguration_def

lemma demo_ready_state:
  "demo_ready =
     \<lparr> config = demo_config,
       modelViewer = Some demo_viewer,
       materials = Some \<lparr> mat_primary = demo_material ''TkaninaMat'',
                           mat_secondary = demo_material ''KaiseviMat'',
                           mat_accent = demo_material ''Kais'' \<rparr>,
       currentState = \<lparr> color = Some ''red'', strap = Some ''selected'',
                         environment = Some ''studio'' \<rparr>,
       eventListeners = Map.empty,
       isReady = True,
       textureCache = [''red_primary.jpg'' \<mapsto> 0, ''red_accent.jpg'' \<mapsto> 1,
                       ''roughness.jpg'' \<mapsto> 2],
       isIdleRotating = True,
       emitted = [(''modelLoaded'', PModelLoaded (model demo_viewer)),
                  (''initialized'', PEngine)],
       delivered = [],
       loads = [''red_primary.jpg'', ''red_accent.jpg'', ''roughness.jpg''],
       applied = [(''TkaninaMat'', BaseColorTexture, Some 0),
                  (''KaiseviMat'', BaseColorTexture, Some 1),
                  (''Kais'', BaseColorTexture, Some 1),
                  (''TkaninaMat'', MetallicRoughnessTexture, Some 2),
                  (''Kais'', BaseColorTexture, Some 1)],
       envElements = [(''studio'', True), (''beach'', False)],
       viewerEvents = True,
       timers = [ReapplyConfiguration, IdleTracking, TexturePreload] \<rparr>"
  by (simp add: demo_ready_def init_simps demo_defs run_simps numeral_2_eq_2)

lemma demo_ready_run:
  "run (initialize demo_page) (constructor demo_config) = (demo_ready, Fulfilled ())"
proof -
  have "snd (run (initialize demo_page) (constructor demo_config)) = Fulfilled ()"
    by (simp add: init_simps demo_defs run_simps numeral_2_eq_2)
  then show ?thesis
    by (simp add: demo_ready_def prod_eq_iff)
qed

lemma demo_blue_run:
  "run (changeColor (Some ''blue'')) demo_ready =
     (demo_ready
        \<lparr> currentState := \<lparr> color = Some ''blue'', strap = Some ''selected'',
                            environment = Some ''studio'' \<rparr>,
          textureCache := [''red_primary.jpg'' \<mapsto> 0, ''red_accent.jpg'' \<mapsto> 1,
                           ''roughness.jpg'' \<mapsto> 2, ''blue_primary.jpg'' \<mapsto> 3,
                           ''blue_accent.jpg'' \<mapsto> 4],
          emitted := emitted demo_ready @
                     [(''colorChanged'', PId (Some ''blue'')),
                      (''strapChanged'', PId (Some ''selected''))],
          loads := [''red_primary.jpg'', ''red_accent.jpg'', ''roughness.jpg'',
                    ''blue_primary.jpg'', ''blue_accent.jpg''],
          applied := applied demo_ready @
                     [(''TkaninaMat'', BaseColorTexture, Some 3),
                      (''KaiseviMat'', BaseColorTexture, Some 4),
                      (''Kais'', BaseColorTexture, Some 4),
                      (''TkaninaMat'', MetallicRoughnessTexture, Some 2),
                      (''Kais'', BaseColorTexture, Some 4)] \<rparr>,
      Fulfilled ())"
  by (simp add: demo_ready_state)
     (simp add: changeColor_def demo_defs run_simps numeral_2_eq_2 numeral_3_eq_3
        eval_nat_numeral)

lemma demo_once_state:
  "demo_once =
     demo_ready
        \<lparr> emitted := emitted demo_ready @
                     [(''colorChanged'', PId (Some ''red'')),
                      (''strapChanged'', PId (Some ''selected''))],
          applied := applied demo_ready @
                     [(''TkaninaMat'', BaseColorTexture, Some 0),
                      (''KaiseviMat'', BaseColorTexture, Some 1),
                      (''Kais'', BaseColorTexture, Some 1),
                      (''TkaninaMat'', MetallicRoughnessTexture, Some 2),
                      (''Kais'', BaseColorTexture, Some 1)] \<rparr>"
  by (simp add: demo_once_def demo_ready_state)
     (simp add: changeColor_def demo_defs run_simps numeral_2_eq_2)

lemma demo_twice_state:
  "demo_twice =
     demo_once
        \<lparr> emitted := emitted demo_once @
                     [(''colorChanged'', PId (Some ''red'')),
                      (''strapChanged'', PId (Some ''selected''))],
          applied := applied demo_once @
                     [(''TkaninaMat'', BaseColorTexture, Some 0),
                      (''KaiseviMat'', BaseColorTexture, Some 1),
                      (''Kais'', BaseColorTexture, Some 1),
                      (''TkaninaMat'', MetallicRoughnessTexture, Some 2),
                      (''Kais'', BaseColorTexture, Some 1)] \<rparr>"
  by (simp add: demo_twice_def demo_once_state demo_ready_state)
     (simp add: changeColor_def demo_defs run_simps numeral_2_eq_2)

lemma demo_rejecting_fails:
  "snd (run (textureApply demo_blue) (optimistic (Some ''blue'') demo_rejecting)) =
     Rejected (Error ''texture rejected'')"
  by (simp add: demo_rejecting_def demo_ready_state)
     (simp add: textureApply_def optimistic_def demo_rejecting_material_def demo_defs run_simps)

lemma demo_orange_state:
  "demo_orange =
     demo_ready
       \<lparr> config := demo_config_orange,
         currentState := \<lparr> color = Some ''red'', strap = Some ''orange'',
                           environment = Some ''studio'' \<rparr>,
         textureCache := [''red_primary.jpg'' \<mapsto> 0, ''red_accent.jpg'' \<mapsto> 1,
                          ''roughness.jpg'' \<mapsto> 2, ''orange.jpg'' \<mapsto> 3],
         loads := [''red_primary.jpg'', ''red_accent.jpg'', ''roughness.jpg'', ''orange.jpg''],
         applied := [(''TkaninaMat'', BaseColorTexture, Some 0),
                     (''KaiseviMat'', BaseColorTexture, Some 1),
                     (''Kais'', BaseColorTexture, Some 1),
                     (''TkaninaMat'', MetallicRoughnessTexture, Some 2),
                     (''Kais'', BaseColorTexture, Some 3)] \<rparr>"
  by (simp add: demo_orange_def demo_ready_state)
     (simp add: demo_config_orange_def init_simps demo_defs run_simps numeral_2_eq_2
        numeral_3_eq_3)

lemma demo_shared_state:
  "demo_shared =
     demo_ready
       \<lparr> currentState := \<lparr> color = Some ''red'', strap = Some ''orange'',
                           environment = Some ''studio'' \<rparr>,
         textureCache := [''red_primary.jpg'' \<mapsto> 0, ''red_accent.jpg'' \<mapsto> 1,
                          ''roughness.jpg'' \<mapsto> 2, ''orange.jpg'' \<mapsto> 3],
         emitted := emitted demo_ready @ [(''strapChanged'', PId (Some ''orange''))],
         loads := [''red_primary.jpg'', ''red_accent.jpg'', ''roughness.jpg'', ''orange.jpg''],
         applied := applied demo_ready @ [(''Kais'', BaseColorTexture, Some 3)] \<rparr>"
  by (simp add: demo_shared_def demo_ready_state)
     (simp add: changeStrap_def demo_defs run_simps numeral_3_eq_3)

lemma demo_accepting:
  "accepting \<lparr> mat_primary = demo_material ''TkaninaMat'',
               mat_secondary = demo_material ''KaiseviMat'',
               mat_accent = demo_material ''Kais'' \<rparr>"
  by (simp add: accepting_def demo_material_def)

section \<open>Floating promises under every schedule\<close>

lemma case_map_prod:
  "(case map_prod id g x of (a, b) \<Rightarrow> P a b) = (case x of (a, c) \<Rightarrow> P a (g c))"
  by (cases x) simp

lemma keeps_Pending: "keeps I Q (Pending f) = (\<forall>s. I s \<longrightarrow> keepsA I Q f s)"
  by (simp add: keepsA_def case_map_prod)

lemma snaps_Pending: "snaps I (Pending f) = (\<forall>s. I s \<longrightarrow> snapsA I f s)"
  by (simp add: snapsA_def split_def)

declare keeps.simps(2) [simp del] snaps.simps(2) [simp del]

lemma keepsA_areturn: "I s \<Longrightarrow> Q (Fulfilled v) \<Longrightarrow> keepsA I Q (areturn v) s"
  by (simp add: keepsA_def areturn_def)

lemma keepsA_athrow: "I s \<Longrightarrow> Q (Rejected e) \<Longrightarrow> keepsA I Q (athrow e) s"
  by (simp add: keepsA_def athrow_def)

lemma keepsA_gets: "keepsA I Q (k (f s)) s \<Longrightarrow> keepsA I Q (abind (gets f) k) s"
  by (simp add: keepsA_def abind_def gets_def)

lemma keepsA_modify:
  "currentState (f s) = currentState s \<Longrightarrow> keepsA I Q n (f s) \<Longrightarrow>
   keepsA I Q (aseq (modify f) n) s"
  by (simp add: keepsA_def aseq_def abind_def modify_def)

lemma keepsA_later: "I s \<Longrightarrow> (\<And>s1. I s1 \<Longrightarrow> keepsA I Q m s1) \<Longrightarrow> keepsA I Q (later m) s"
  by (simp add: keepsA_def [of _ _ "later m"] later_def keeps_Pending)

lemma keeps_pbind:
  assumes "keeps I Q1 p" and "I s"
      and "\<And>v s. I s \<Longrightarrow> Q1 (Fulfilled v) \<Longrightarrow> keepsA I Q (k v) s"
      and "\<And>e. Q1 (Rejected e) \<Longrightarrow> Q (Rejected e)"
  shows "keepsA I Q (pbind p k) s"
  using assms(1,2)
proof (induction p arbitrary: s)
  case (Settled r)
  then show ?case
    by (cases r) (auto intro: assms(3) keepsA_athrow assms(4))
next
  case (Pending f)
  have "keepsA I Q (\<lambda>s1. case f s1 of (s2, p') \<Rightarrow> pbind p' k s2) s1" if "I s1" for s1
  proof -
    obtain s2 p' where f: "f s1 = (s2, p')" by (cases "f s1")
    from Pending.prems(1) that f
    have a: "I s2" "currentState s2 = currentState s1" "keeps I Q1 p'"
      by (auto simp: keeps_Pending keepsA_def)
    have "keepsA I Q (pbind p' k) s2"
      by (rule Pending.IH [OF rangeI [of f s1]]) (simp_all add: f a)
    with a f show ?thesis
      by (simp add: keepsA_def split: prod.splits)
  qed
  with Pending.prems(2) show ?case
    by (simp add: keepsA_def keeps_Pending case_map_prod)
qed

lemma keepsA_abind:
  assumes "keepsA I Q1 m s"
      and "\<And>v s. I s \<Longrightarrow> Q1 (Fulfilled v) \<Longrightarrow> keepsA I Q (k v) s"
      and "\<And>e. Q1 (Rejected e) \<Longrightarrow> Q (Rejected e)"
  shows "keepsA I Q (abind m k) s"
proof -
  obtain s1 p where m: "m s = (s1, p)" by (cases "m s")
  with assms(1) have a: "I s1" "currentState s1 = currentState s" "keeps I Q1 p"
    by (simp_all add: keepsA_def)
  have "keepsA I Q (pbind p k) s1"
    using a(3) a(1) assms(2,3) by (rule keeps_pbind)
  with a m show ?thesis
    by (simp add: keepsA_def abind_def split: prod.splits)
qed

lemma keepsA_aseq:
  assumes "keepsA I Q1 m s"
      and "\<And>s. I s \<Longrightarrow> keepsA I Q n s"
      and "\<And>e. Q1 (Rejected e) \<Longrightarrow> Q (Rejected e)"
  shows "keepsA I Q (aseq m n) s"
  unfolding aseq_def using assms by (rule keepsA_abind)

lemma keeps_awaitp: "keeps I Q p \<Longrightarrow> keeps I Q (awaitp p)"
proof (induction p)
  case (Settled r)
  then show ?case by (simp add: keeps_Pending keepsA_def)
next
  case (Pending f)
  have "keepsA I Q (\<lambda>s. map_prod id awaitp (f s)) s" if "I s" for s
  proof -
    obtain s1 p' where f: "f s = (s1, p')" by (cases "f s")
    from Pending.prems that f
    have a: "I s1" "currentState s1 = currentState s" "keeps I Q p'"
      by (auto simp: keeps_Pending keepsA_def)
    have "keeps I Q (awaitp p')"
      by (rule Pending.IH [OF rangeI [of f s]]) (simp_all add: f a)
    with a f show ?thesis by (simp add: keepsA_def)
  qed
  then show ?case by (simp add: keeps_Pending)
qed

lemma keepsA_await: "keepsA I Q m s \<Longrightarrow> keepsA I Q (await m) s"
  by (cases "m s") (simp add: keepsA_def await_def keeps_awaitp)

lemma keeps_pcatch:
  assumes "keeps I Q1 p" and "I s"
      and "\<And>v. Q1 (Fulfilled v) \<Longrightarrow> Q (Fulfilled v)"
      and "\<And>e s. I s \<Longrightarrow> Q1 (Rejected e) \<Longrightarrow> keepsA I Q (h e) s"
  shows "keepsA I Q (pcatch p h) s"
  using assms(1,2)
proof (induction p arbitrary: s)
  case (Settled r)
  then show ?case
    by (cases r) (auto intro: assms(3) keepsA_areturn assms(4))
next
  case (Pending f)
  have "keepsA I Q (\<lambda>s1. case f s1 of (s2, p') \<Rightarrow> pcatch p' h s2) s1" if "I s1" for s1
  proof -
    obtain s2 p' where f: "f s1 = (s2, p')" by (cases "f s1")
    from Pending.prems(1) that f
    have a: "I s2" "currentState s2 = currentState s1" "keeps I Q1 p'"
      by (auto simp: keeps_Pending keepsA_def)
    have "keepsA I Q (pcatch p' h) s2"
      by (rule Pending.IH [OF rangeI [of f s1]]) (simp_all add: f a)
    with a f show ?thesis
      by (simp add: keepsA_def split: prod.splits)
  qed
  with Pending.prems(2) show ?case
    by (simp add: keepsA_def keeps_Pending case_map_prod)
qed

lemma keepsA_atry:
  assumes "keepsA I Q1 m s"
      and "\<And>v. Q1 (Fulfilled v) \<Longrightarrow> Q (Fulfilled v)"
      and "\<And>e s. I s \<Longrightarrow> Q1 (Rejected e) \<Longrightarrow> keepsA I Q (h e) s"
  shows "keepsA I Q (atry m h) s"
proof -
  obtain s1 p where m: "m s = (s1, p)" by (cases "m s")
  with assms(1) have a: "I s1" "currentState s1 = currentState s" "keeps I Q1 p"
    by (simp_all add: keepsA_def)
  have "keepsA I Q (pcatch p h) s1"
    using a(3) a(1) assms(2,3) by (rule keeps_pcatch)
  with a m show ?thesis
    by (simp add: keepsA_def atry_def split: prod.splits)
qed

lemma keeps_then_snaps:
  assumes "keeps I fulfilled p" and "I s"
      and "\<And>v s. I s \<Longrightarrow> snapsA I (k v) s"
  shows "snapsA I (pbind p k) s"
  using assms(1,2)
proof (induction p arbitrary: s)
  case (Settled r)
  then show ?case by (cases r) (auto intro: assms(3))
next
  case (Pending f)
  have "snapsA I (\<lambda>s1. case f s1 of (s2, p') \<Rightarrow> pbind p' k s2) s1" if "I s1" for s1
  proof -
    obtain s2 p' where f: "f s1 = (s2, p')" by (cases "f s1")
    from Pending.prems(1) that f
    have a: "I s2" "currentState s2 = currentState s1" "keeps I fulfilled p'"
      by (auto simp: keeps_Pending keepsA_def)
    have "snapsA I (pbind p' k) s2"
      by (rule Pending.IH [OF rangeI [of f s1]]) (simp_all add: f a)
    with a f show ?thesis
      by (simp add: snapsA_def split: prod.splits)
  qed
  with Pending.prems(2) show ?case
    by (simp add: snapsA_def snaps_Pending case_map_prod)
qed

lemma snaps_pcatch:
  assumes "snaps I p" and "I s"
  shows "snapsA I (pcatch p h) s"
  using assms
proof (induction p arbitrary: s)
  case (Settled r)
  then show ?case by simp
next
  case (Pending f)
  have "snapsA I (\<lambda>s1. case f s1 of (s2, p') \<Rightarrow> pcatch p' h s2) s1" if "I s1" for s1
  proof -
    obtain s2 p' where f: "f s1 = (s2, p')" by (cases "f s1")
    from Pending.prems(1) that f
    have a: "I s2"
      and b: "currentState s2 = currentState s1 \<and> snaps I p' \<or>
              currentState s2 = (currentState s1)\<lparr>strap := Some ''selected''\<rparr> \<and>
              keeps I fulfilled p'"
      by (auto simp: snaps_Pending snapsA_def)
    from b show ?thesis
    proof
      assume c: "currentState s2 = currentState s1 \<and> snaps I p'"
      have "snapsA I (pcatch p' h) s2"
        by (rule Pending.IH [OF rangeI [of f s1]]) (simp_all add: f a c)
      with c f show ?thesis
        by (simp add: snapsA_def split: prod.splits)
    next
      assume c: "currentState s2 = (currentState s1)\<lparr>strap := Some ''selected''\<rparr> \<and>
                 keeps I fulfilled p'"
      then have "keepsA I fulfilled (pcatch p' h) s2"
        using a by (intro keeps_pcatch [where ?Q1.0 = fulfilled]) simp_all
      with c f show ?thesis
        by (simp add: snapsA_def keepsA_def split: prod.splits)
    qed
  qed
  with Pending.prems(2) show ?case
    by (simp add: snapsA_def snaps_Pending case_map_prod)
qed

lemma keepsA_createTexture:
  "bound cfg m s \<Longrightarrow> keepsA (bound cfg m) anyhow (createTexture url) s"
  unfolding createTexture_def
  apply (rule keepsA_gets)
  apply (cases "modelViewer s")
   apply (simp add: keepsA_athrow)
  apply simp
  apply (rule keepsA_gets)
  apply (rule keepsA_modify)
   apply simp
  apply (rule keepsA_later)
   apply (simp add: bound_def)
  apply (auto simp: keepsA_areturn keepsA_athrow split: sum.splits)
  done

lemma keepsA_preloadTexture:
  "bound cfg m s \<Longrightarrow> keepsA (bound cfg m) fulfilled (preloadTexture url) s"
  unfolding preloadTexture_def
  apply (rule keepsA_gets)
  apply (cases "textureCache s url")
   apply simp
   apply (rule keepsA_atry [where ?Q1.0 = anyhow])
     apply (rule keepsA_abind [where ?Q1.0 = anyhow])
       apply (rule keepsA_await)
       apply (erule keepsA_createTexture)
      apply (rule keepsA_modify)
       apply simp
      apply (rule keepsA_areturn)
       apply (simp add: bound_def)
      apply simp
     apply simp
    apply simp
   apply (simp add: keepsA_areturn)
  apply (simp add: keepsA_areturn)
  done

lemma keepsA_getTexture:
  "bound cfg m s \<Longrightarrow> keepsA (bound cfg m) fulfilled (getTexture url) s"
  unfolding getTexture_def
  apply (rule keepsA_gets)
  apply (cases "textureCache s url")
   apply simp
   apply (rule keepsA_abind [where ?Q1.0 = fulfilled])
     apply (rule keepsA_await)
     apply (erule keepsA_preloadTexture)
    apply (simp add: keepsA_areturn)
   apply simp
  apply (simp add: keepsA_areturn)
  done

lemma keepsA_setTexture:
  "bound cfg m s \<Longrightarrow> setTexture_throws mat ch tex = None \<Longrightarrow>
   keepsA (bound cfg m) fulfilled (setTexture mat ch tex) s"
  by (simp add: setTexture_def keepsA_def modify_def bound_def)

lemma keepsA_setTexture_then:
  "bound cfg m s \<Longrightarrow> setTexture_throws mat ch tex = None \<Longrightarrow>
   (\<And>s. bound cfg m s \<Longrightarrow> keepsA (bound cfg m) fulfilled n s) \<Longrightarrow>
   keepsA (bound cfg m) fulfilled (aseq (setTexture mat ch tex) n) s"
  by (rule keepsA_aseq [where ?Q1.0 = fulfilled]) (simp_all add: keepsA_setTexture)

lemma keepsA_applyColorTextures:
  assumes "bound cfg m s" and "accepting m"
  shows "keepsA (bound cfg m) fulfilled (applyColorTextures c) s"
proof -
  from assms(1) have ms: "materials s = Some m" by (simp add: bound_def)
  from assms(2) have acc: "\<And>ch tex. setTexture_throws (mat_primary m) ch tex = None"
    "\<And>ch tex. setTexture_throws (mat_secondary m) ch tex = None"
    "\<And>ch tex. setTexture_throws (mat_accent m) ch tex = None"
    by (simp_all add: accepting_def)
  show ?thesis
    unfolding applyColorTextures_def
    apply (rule keepsA_gets)
    apply (simp add: ms)
    apply (rule keepsA_abind [where ?Q1.0 = fulfilled])
      apply (rule keepsA_await)
      apply (rule keepsA_getTexture [OF assms(1)])
     apply (rule keepsA_abind [where ?Q1.0 = fulfilled])
       apply (rule keepsA_await)
       apply (erule keepsA_getTexture)
      apply (rule keepsA_abind [where ?Q1.0 = fulfilled])
        apply (rule keepsA_await)
        apply (erule keepsA_getTexture)
       apply (rule keepsA_setTexture_then, assumption, rule acc)
       apply (rule keepsA_setTexture_then, assumption, rule acc)
       apply (rule keepsA_setTexture_then, assumption, rule acc)
       apply (rule keepsA_setTexture, assumption, rule acc)
      apply simp_all
    done
qed

lemma keepsA_applyStrapConfiguration:
  assumes "bound cfg m s" and "accepting m"
  shows "keepsA (bound cfg m) fulfilled (applyStrapConfiguration strapId) s"
proof -
  from assms(1) have ms: "materials s = Some m" by (simp add: bound_def)
  from assms(2) have acc: "\<And>ch tex. setTexture_throws (mat_accent m) ch tex = None"
    by (simp add: accepting_def)
  show ?thesis
    unfolding applyStrapConfiguration_def
    apply (rule keepsA_gets)
    apply (simp add: ms)
    apply (rule keepsA_gets)
    apply (cases "strapTextureOf strapId s")
     apply (simp add: keepsA_areturn assms(1))
    apply (simp add: keepsA_areturn assms(1))
    apply (rule impI)
    apply (rule keepsA_abind [where ?Q1.0 = fulfilled])
      apply (rule keepsA_await)
      apply (rule keepsA_getTexture [OF assms(1)])
     apply (rule keepsA_setTexture, assumption, rule acc)
    apply simp
    done
qed

lemma keepsA_notifyListeners:
  "bound cfg m s \<Longrightarrow> keepsA (bound cfg m) fulfilled (notifyListeners event data) s"
  by (simp add: keepsA_def notifyListeners_sync bound_def)

lemma abind_gets: "abind (gets f) k s = k (f s) s"
  by (simp add: abind_def gets_def)

lemma aseq_modify: "aseq (modify f) n s = n (f s)"
  by (simp add: aseq_def abind_def modify_def)

lemma aseq_notifyListeners: "aseq (notifyListeners event data) n s = n (notified event data s)"
  by (simp add: aseq_sync [OF notifyListeners_sync])

lemma awaitp_Pending: "\<exists>f. awaitp p = Pending f"
  by (cases p) simp_all

lemma keeps_then_snaps_pending:
  assumes "keeps I fulfilled (Pending f)"
      and "\<And>v s. I s \<Longrightarrow> snapsA I (k v) s"
  shows "\<exists>g. pbind (Pending f) k s = (s, Pending g) \<and> snaps I (Pending g)"
proof -
  have "snapsA I (\<lambda>s1. case f s1 of (s2, p') \<Rightarrow> pbind p' k s2) s1" if "I s1" for s1
  proof -
    obtain s2 p' where f: "f s1 = (s2, p')" by (cases "f s1")
    from assms(1) that f
    have a: "I s2" "currentState s2 = currentState s1" "keeps I fulfilled p'"
      by (auto simp: keeps_Pending keepsA_def)
    have "snapsA I (pbind p' k) s2"
      using a(3) a(1) assms(2) by (rule keeps_then_snaps)
    with a f show ?thesis
      by (simp add: snapsA_def split: prod.splits)
  qed
  then show ?thesis
    by (simp add: snaps_Pending case_map_prod)
qed

lemma snaps_pcatch_pending:
  assumes "snaps I (Pending f)"
  shows "\<exists>g. pcatch (Pending f) h s = (s, Pending g) \<and> snaps I (Pending g)"
proof -
  have "snapsA I (\<lambda>s1. case f s1 of (s2, p') \<Rightarrow> pcatch p' h s2) s1" if "I s1" for s1
  proof -
    obtain s2 p' where f: "f s1 = (s2, p')" by (cases "f s1")
    from assms that f
    have a: "I s2"
      and b: "currentState s2 = currentState s1 \<and> snaps I p' \<or>
              currentState s2 = (currentState s1)\<lparr>strap := Some ''selected''\<rparr> \<and>
              keeps I fulfilled p'"
      by (auto simp: snaps_Pending snapsA_def)
    from b show ?thesis
    proof
      assume c: "currentState s2 = currentState s1 \<and> snaps I p'"
      then have "snapsA I (pcatch p' h) s2"
        using a by (intro snaps_pcatch) simp_all
      with c f show ?thesis
        by (simp add: snapsA_def split: prod.splits)
    next
      assume c: "currentState s2 = (currentState s1)\<lparr>strap := Some ''selected''\<rparr> \<and>
                 keeps I fulfilled p'"
      then have "keepsA I fulfilled (pcatch p' h) s2"
        using a by (intro keeps_pcatch [where ?Q1.0 = fulfilled]) simp_all
      with c f show ?thesis
        by (simp add: snapsA_def keepsA_def split: prod.splits)
    qed
  qed
  then show ?thesis
    by (simp add: snaps_Pending case_map_prod)
qed

lemma snapsA_strap_then:
  assumes "bound cfg m s" and "accepting m"
  shows "snapsA (bound cfg m)
           (aseq (modify (\<lambda>s. s\<lparr>currentState := (currentState s)\<lparr>strap := Some ''selected''\<rparr>\<rparr>))
              (aseq (await (applyStrapConfiguration (Some ''selected'')))
                    (notifyListeners ''strapChanged'' (PId (Some ''selected''))))) s"
proof -
  let ?s1 = "s\<lparr>currentState := (currentState s)\<lparr>strap := Some ''selected''\<rparr>\<rparr>"
  have b: "bound cfg m ?s1" using assms(1) by (simp add: bound_def)
  have "keepsA (bound cfg m) fulfilled
          (aseq (await (applyStrapConfiguration (Some ''selected'')))
                (notifyListeners ''strapChanged'' (PId (Some ''selected'')))) ?s1"
    by (rule keepsA_aseq [where ?Q1.0 = fulfilled])
       (simp_all add: keepsA_await keepsA_applyStrapConfiguration [OF b assms(2)]
          keepsA_notifyListeners)
  then show ?thesis
    by (simp add: snapsA_def keepsA_def aseq_modify split: prod.splits)
qed

lemma changeColor_floating:
  assumes "bound cfg m s" and "accepting m"
      and "find (\<lambda>c. Some (color_id c) = colorId) (colors cfg) = Some c"
  shows "\<exists>s1 g. changeColor colorId s = (s1, Pending g) \<and> bound cfg m s1 \<and>
           currentState s1 = (currentState s)\<lparr>color := colorId\<rparr> \<and>
           snaps (bound cfg m) (Pending g)"
proof -
  let ?I = "bound cfg m"
  let ?s1 = "optimistic colorId s"
  let ?rest = "aseq (modify (\<lambda>s. s\<lparr>currentState := (currentState s)\<lparr>strap := Some ''selected''\<rparr>\<rparr>))
              (aseq (await (applyStrapConfiguration (Some ''selected'')))
                    (notifyListeners ''strapChanged'' (PId (Some ''selected''))))"
  from assms(1) have cfg: "config s = cfg" by (simp add: bound_def)
  have b1: "?I ?s1" and sel1: "currentState ?s1 = (currentState s)\<lparr>color := colorId\<rparr>"
    using assms(1) by (simp_all add: optimistic_def bound_def)
  obtain s2 p0 where act: "applyColorTextures c ?s1 = (s2, p0)"
    by (cases "applyColorTextures c ?s1")
  from keepsA_applyColorTextures [OF b1 assms(2), of c] act
  have k: "?I s2" "currentState s2 = currentState ?s1" "keeps ?I fulfilled p0"
    by (simp_all add: keepsA_def)
  obtain f where f: "awaitp p0 = Pending f" using awaitp_Pending by blast
  from k(3) have "keeps ?I fulfilled (Pending f)"
    using keeps_awaitp [of ?I fulfilled p0] f by simp
  then obtain g where g: "pbind (Pending f) (\<lambda>_. ?rest) s2 = (s2, Pending g)"
      and sg: "snaps ?I (Pending g)"
    using keeps_then_snaps_pending [of ?I f "\<lambda>_. ?rest" s2] snapsA_strap_then [OF _ assms(2)]
    by blast
  let ?h = "\<lambda>error.
      aseq (modify (\<lambda>s'. s'\<lparr>currentState := (currentState s')\<lparr>color := color (currentState s)\<rparr>\<rparr>))
     (aseq (notifyListeners ''colorChanged'' (PId (color (currentState s))))
           (notifyListeners ''error''
              (PError ''user'' (''Failed to change color to '' @ color_name c)
                 (ErrorObject error))))"
  obtain g' where g': "pcatch (Pending g) ?h s2 = (s2, Pending g')"
      and sg': "snaps ?I (Pending g')"
    using snaps_pcatch_pending [OF sg, of ?h s2] by blast
  have "changeColor colorId s =
      atry (aseq (await (applyColorTextures c)) ?rest) ?h ?s1"
    by (simp add: changeColor_def abind_gets cfg assms(3) aseq_modify aseq_notifyListeners
          optimistic_def)
  also have "\<dots> = (s2, Pending g')"
  proof -
    have 1: "await (applyColorTextures c) ?s1 = (s2, Pending f)"
      by (simp add: await_def act f)
    have 2: "aseq (await (applyColorTextures c)) ?rest ?s1 = (s2, Pending g)"
      by (simp only: aseq_def [of "await (applyColorTextures c)"] abind_def 1 prod.case g)
    show ?thesis
      by (simp only: atry_def 2 prod.case g')
  qed
  finally show ?thesis
    using k sel1 sg' by auto
qed

lemma changeStrap_floating:
  assumes "bound cfg m s" and "accepting m"
      and "find (\<lambda>x. Some (strap_id x) = strapId) (straps cfg) = Some x"
  shows "\<exists>s1 p. changeStrap strapId s = (s1, p) \<and> bound cfg m s1 \<and>
           currentState s1 = (currentState s)\<lparr>strap := strapId\<rparr> \<and>
           keeps (bound cfg m) anyhow p"
proof -
  let ?I = "bound cfg m"
  let ?s1 = "s\<lparr>currentState := (currentState s)\<lparr>strap := strapId\<rparr>\<rparr>"
  from assms(1) have cfg: "config s = cfg" by (simp add: bound_def)
  have b1: "?I ?s1" using assms(1) by (simp add: bound_def)
  have body: "keepsA ?I fulfilled
      (aseq (await (applyStrapConfiguration strapId))
            (notifyListeners ''strapChanged'' (PId strapId))) ?s1"
    by (rule keepsA_aseq [where ?Q1.0 = fulfilled])
       (simp_all add: keepsA_await keepsA_applyStrapConfiguration [OF b1 assms(2)]
          keepsA_notifyListeners)
  have "keepsA ?I anyhow
      (atry (aseq (await (applyStrapConfiguration strapId))
                  (notifyListeners ''strapChanged'' (PId strapId)))
            (\<lambda>error. areturn ())) ?s1"
    using body by (rule keepsA_atry) simp_all
  moreover have "changeStrap strapId s =
      atry (aseq (await (applyStrapConfiguration strapId))
                 (notifyListeners ''strapChanged'' (PId strapId)))
           (\<lambda>error. areturn ()) ?s1"
    by (simp add: changeStrap_def abind_gets cfg assms(3) aseq_modify)
  ultimately show ?thesis
    by (auto simp: keepsA_def split: prod.splits)
qed

lemma changeEnvironment_sync:
  assumes "bound cfg m s"
      and "find (\<lambda>x. Some (env_id x) = environmentId) (environments cfg) = Some x"
  shows "\<exists>s1. changeEnvironment environmentId s = (s1, Settled (Fulfilled ())) \<and>
           bound cfg m s1 \<and>
           currentState s1 = (currentState s)\<lparr>environment := environmentId\<rparr>"
  using assms
  by (simp add: changeEnvironment_def abind_gets aseq_modify aseq_sync [OF notifyListeners_sync]
        notifyListeners_sync bound_def)

lemma pool_tick:
  assumes "pool I s ps" and "tick i ps s = (s', ps')"
  shows "pool I s' ps' \<and> color (currentState s') = color (currentState s) \<and>
         environment (currentState s') = environment (currentState s)"
proof -
  from assms(1) obtain t1 t2 where ps: "ps = [t1, t2]" and I: "I s"
      and k2: "keeps I anyhow t2"
      and t1: "snaps I t1 \<or> strap (currentState s) = Some ''selected'' \<and> keeps I fulfilled t1"
    by (auto simp: pool_def)
  consider "i = 0" | "i = 1" | "2 \<le> i" by linarith
  then show ?thesis
  proof cases
    case 1
    show ?thesis
    proof (cases t1)
      case (Settled r)
      with assms 1 ps show ?thesis by (simp add: tick_def)
    next
      case (Pending f)
      obtain s1 p where f: "f s = (s1, p)" by (cases "f s")
      with assms(2) 1 ps Pending have res: "s' = s1" "ps' = [p, t2]"
        by (simp_all add: tick_def)
      from t1 show ?thesis
      proof
        assume "snaps I t1"
        with Pending I f have "I s1"
          and "currentState s1 = currentState s \<and> snaps I p \<or>
               currentState s1 = (currentState s)\<lparr>strap := Some ''selected''\<rparr> \<and>
               keeps I fulfilled p"
          by (auto simp: snaps_Pending snapsA_def)
        with res k2 show ?thesis by (auto simp: pool_def)
      next
        assume a: "strap (currentState s) = Some ''selected'' \<and> keeps I fulfilled t1"
        with Pending I f have "I s1" "currentState s1 = currentState s" "keeps I fulfilled p"
          by (auto simp: keeps_Pending keepsA_def)
        with res k2 a show ?thesis by (auto simp: pool_def)
      qed
    qed
  next
    case 2
    show ?thesis
    proof (cases t2)
      case (Settled r)
      with assms 2 ps show ?thesis by (simp add: tick_def)
    next
      case (Pending f)
      obtain s1 p where f: "f s = (s1, p)" by (cases "f s")
      with assms(2) 2 ps Pending have res: "s' = s1" "ps' = [t1, p]"
        by (simp_all add: tick_def)
      from k2 Pending I f have "I s1" "currentState s1 = currentState s" "keeps I anyhow p"
        by (auto simp: keeps_Pending keepsA_def)
      with res t1 show ?thesis by (auto simp: pool_def)
    qed
  next
    case 3
    with assms ps show ?thesis by (simp add: tick_def)
  qed
qed

lemma pool_runSchedule:
  assumes "pool I s ps" and "runSchedule sched ps s = (s', ps')"
  shows "pool I s' ps' \<and> color (currentState s') = color (currentState s) \<and>
         environment (currentState s') = environment (currentState s)"
  using assms
proof (induction sched arbitrary: s ps)
  case Nil
  then show ?case by simp
next
  case (Cons i sched)
  obtain s1 ps1 where t: "tick i ps s = (s1, ps1)" by (cases "tick i ps s")
  from pool_tick [OF Cons.prems(1) t]
  have a: "pool I s1 ps1" "color (currentState s1) = color (currentState s)"
    "environment (currentState s1) = environment (currentState s)"
    by simp_all
  from Cons.prems(2) t have "runSchedule sched ps1 s1 = (s', ps')" by simp
  from Cons.IH [OF a(1) this] a show ?case by simp
qed

lemma pool_settled:
  assumes "pool I s ps" and "all_settled ps"
  shows "strap (currentState s) = Some ''selected''"
proof -
  from assms(1) obtain t1 t2 where ps: "ps = [t1, t2]"
      and t1: "snaps I t1 \<or> strap (currentState s) = Some ''selected'' \<and> keeps I fulfilled t1"
    by (auto simp: pool_def)
  from assms(2) ps obtain r where "t1 = Settled r" by (cases t1) simp_all
  with t1 show ?thesis by simp
qed

text \<open>
  \<open>reset\<close> with materials that accept their textures and declared defaults that the
  configuration has: however the ticks of the two floating promises are scheduled, once
  both have settled the colour and the environment are the declared ones and the strap is
  \<open>selected\<close>. The assignment of the declared strap happens in the synchronous part of
  \<open>changeStrap\<close>, hence before \<open>reset\<close> returns; the assignment of \<open>selected\<close> happens in a
  later tick of \<open>changeColor\<close>.
\<close>

lemma reset_any_schedule:
  assumes b: "bound cfg m s" and acc: "accepting m"
      and c: "find (\<lambda>c. Some (color_id c) = declaredColor cfg) (colors cfg) = Some c"
      and x: "find (\<lambda>x. Some (strap_id x) = declaredStrap cfg) (straps cfg) = Some x"
      and e: "find (\<lambda>x. Some (env_id x) = declaredEnvironment cfg) (environments cfg) = Some e"
      and run: "thenSettle sched reset s = (s', ps')"
      and settled: "all_settled ps'"
  shows "getState s' = \<lparr> color = declaredColor cfg, strap = Some ''selected'',
                          environment = declaredEnvironment cfg \<rparr>"
proof -
  let ?I = "bound cfg m"
  from b have cfg: "config s = cfg" by (simp add: bound_def)
  from changeColor_floating [OF b acc c] obtain s1 g
    where cc: "changeColor (declaredColor cfg) s = (s1, Pending g)" and b1: "?I s1"
      and sel1: "currentState s1 = (currentState s)\<lparr>color := declaredColor cfg\<rparr>"
      and sn: "snaps ?I (Pending g)"
    by blast
  from changeStrap_floating [OF b1 acc x] obtain s2 p
    where cs: "changeStrap (declaredStrap cfg) s1 = (s2, p)" and b2: "?I s2"
      and sel2: "currentState s2 = (currentState s1)\<lparr>strap := declaredStrap cfg\<rparr>"
      and kp: "keeps ?I anyhow p"
    by blast
  from changeEnvironment_sync [OF b2 e] obtain s3
    where ce: "changeEnvironment (declaredEnvironment cfg) s2 = (s3, Settled (Fulfilled ()))"
      and b3: "?I s3"
      and sel3: "currentState s3 = (currentState s2)\<lparr>environment := declaredEnvironment cfg\<rparr>"
    by blast
  let ?s4 = "notified ''reset'' (PState (currentState s3)) s3"
  have env: "aseq (changeEnvironment (declaredEnvironment cfg)) n s2 = n s3" for n :: "'b js"
    by (simp add: aseq_def abind_def ce)
  have r: "reset s = (?s4, Settled (Fulfilled [Pending g, p]))"
    by (simp add: reset_def abind_gets cfg)
       (simp add: abind_def start_def cc cs ce gets_def aseq_def notifyListeners_sync
          areturn_def)
  have b4: "?I ?s4" and sel4: "currentState ?s4 = currentState s3"
    using b3 by (simp_all add: bound_def)
  have "pool ?I ?s4 [Pending g, p]"
    using b4 kp sn by (simp add: pool_def)
  moreover from run r have "runSchedule sched [Pending g, p] ?s4 = (s', ps')"
    by (simp add: thenSettle_def)
  ultimately have fin: "pool ?I s' ps'" "color (currentState s') = color (currentState ?s4)"
    "environment (currentState s') = environment (currentState ?s4)"
    using pool_runSchedule by blast+
  from pool_settled [OF fin(1) settled] fin(2,3) sel4 sel3 sel2 sel1
  show ?thesis by (simp add: getState_def)
qed

text \<open>The same for the three selection parameters of a URL.\<close>

lemma applyURLParameters_floating:
  assumes b: "bound cfg m s" and acc: "accepting m"
      and c: "find (\<lambda>c. Some (color_id c) = Some cid) (colors cfg) = Some c"
      and x: "find (\<lambda>x. Some (strap_id x) = Some sid) (straps cfg) = Some x"
      and e: "find (\<lambda>x. Some (env_id x) = Some eid) (environments cfg) = Some e"
      and params: "map_of params ''color'' = Some cid" "map_of params ''strap'' = Some sid"
        "map_of params ''environment'' = Some eid"
  shows "\<exists>s3 ps. applyURLParameters params s = (s3, Settled (Fulfilled ps)) \<and>
           pool (bound cfg m) s3 ps \<and> color (currentState s3) = Some cid \<and>
           environment (currentState s3) = Some eid"
proof -
  let ?I = "bound cfg m"
  from changeColor_floating [OF b acc c] obtain s1 g
    where cc: "changeColor (Some cid) s = (s1, Pending g)" and b1: "?I s1"
      and sel1: "currentState s1 = (currentState s)\<lparr>color := Some cid\<rparr>"
      and sn: "snaps ?I (Pending g)"
    by blast
  from changeStrap_floating [OF b1 acc x] obtain s2 p
    where cs: "changeStrap (Some sid) s1 = (s2, p)" and b2: "?I s2"
      and sel2: "currentState s2 = (currentState s1)\<lparr>strap := Some sid\<rparr>"
      and kp: "keeps ?I anyhow p"
    by blast
  from changeEnvironment_sync [OF b2 e] obtain s3
    where ce: "changeEnvironment (Some eid) s2 = (s3, Settled (Fulfilled ()))"
      and b3: "?I s3"
      and sel3: "currentState s3 = (currentState s2)\<lparr>environment := Some eid\<rparr>"
    by blast
  have env: "aseq (changeEnvironment (Some eid)) n s2 = n s3" for n :: "'b js"
    by (simp add: aseq_def abind_def ce)
  have r: "applyURLParameters params s = (s3, Settled (Fulfilled [Pending g, p]))"
    by (simp add: applyURLParameters_def params abind_def start_def cc cs env areturn_def)
  have "pool ?I s3 [Pending g, p]"
    using b3 kp sn by (simp add: pool_def)
  with r sel1 sel2 sel3 show ?thesis by simp
qed

lemma applyURLParameters_any_schedule:
  assumes b: "bound cfg m s" and acc: "accepting m"
      and c: "find (\<lambda>c. Some (color_id c) = Some cid) (colors cfg) = Some c"
      and x: "find (\<lambda>x. Some (strap_id x) = Some sid) (straps cfg) = Some x"
      and e: "find (\<lambda>x. Some (env_id x) = Some eid) (environments cfg) = Some e"
      and params: "map_of params ''color'' = Some cid" "map_of params ''strap'' = Some sid"
        "map_of params ''environment'' = Some eid"
      and run: "thenSettle sched (applyURLParameters params) s = (s', ps')"
      and settled: "all_settled ps'"
  shows "getState s' = \<lparr> color = Some cid, strap = Some ''selected'',
                          environment = Some eid \<rparr>"
proof -
  from applyURLParameters_floating [OF b acc c x e params] obtain s3 ps
    where r: "applyURLParameters params s = (s3, Settled (Fulfilled ps))"
      and p: "pool (bound cfg m) s3 ps" and sel: "color (currentState s3) = Some cid"
        "environment (currentState s3) = Some eid"
    by blast
  from run r have "runSchedule sched ps s3 = (s', ps')"
    by (simp add: thenSettle_def)
  with p have fin: "pool (bound cfg m) s' ps'" "color (currentState s') = color (currentState s3)"
    "environment (currentState s') = environment (currentState s3)"
    using pool_runSchedule by blast+
  from pool_settled [OF fin(1) settled] fin(2,3) sel
  show ?thesis by (simp add: getState_def)
qed

text \<open>
  The same for the page that is embedded without its widgets, from the constructor on: the
  orchestrator's listeners do not touch the selection.
\<close>

lemma subscriptions_sync:
  "\<exists>s'. forEach (\<lambda>subscription. subscribe (fst subscription) (snd subscription)) subs s =
          (s', Settled (Fulfilled ())) \<and> apart s' = apart s"
proof (induction subs arbitrary: s)
  case Nil
  show ?case by (simp add: areturn_def)
next
  case (Cons sub subs)
  have "\<exists>s1. subscribe (fst sub) (snd sub) s = (s1, Settled (Fulfilled ())) \<and> apart s1 = apart s"
    by (auto simp: subscribe_def aseq_def abind_def modify_def apart_def split: option.splits)
  then obtain s1
    where a: "subscribe (fst sub) (snd sub) s = (s1, Settled (Fulfilled ()))" "apart s1 = apart s"
    by blast
  from Cons.IH [of s1] obtain s2
    where b: "forEach (\<lambda>subscription. subscribe (fst subscription) (snd subscription)) subs s1 =
        (s2, Settled (Fulfilled ()))" "apart s2 = apart s1"
    by blast
  from a b show ?case
    by (simp add: aseq_def abind_def)
qed

lemma pool_apart:
  assumes "pool (bound cfg m) s ps" and "apart s' = apart s"
  shows "pool (bound cfg m) s' ps"
proof -
  from assms(2) have "config s' = config s" "materials s' = materials s"
    "currentState s' = currentState s"
    by (simp_all add: apart_def)
  with assms(1) show ?thesis by (simp add: pool_def bound_def)
qed

lemma startWithoutUI_floating:
  assumes b: "bound cfg m s" and acc: "accepting m"
      and c: "find (\<lambda>c. Some (color_id c) = Some cid) (colors cfg) = Some c"
      and x: "find (\<lambda>x. Some (strap_id x) = Some sid) (straps cfg) = Some x"
      and e: "find (\<lambda>x. Some (env_id x) = Some eid) (environments cfg) = Some e"
      and params: "map_of params ''color'' = Some cid" "map_of params ''strap'' = Some sid"
        "map_of params ''environment'' = Some eid"
  shows "\<exists>s4 ps. startWithoutUI params s = (s4, Settled (Fulfilled ps)) \<and>
           pool (bound cfg m) s4 ps \<and> color (currentState s4) = Some cid \<and>
           environment (currentState s4) = Some eid"
proof -
  from applyURLParameters_floating [OF assms] obtain s3 ps
    where r: "applyURLParameters params s = (s3, Settled (Fulfilled ps))"
      and p: "pool (bound cfg m) s3 ps" and sel: "color (currentState s3) = Some cid"
        "environment (currentState s3) = Some eid"
    by blast
  from subscriptions_sync [of orchestratorListeners s3] obtain s4
    where sub: "forEach (\<lambda>subscription. subscribe (fst subscription) (snd subscription))
        orchestratorListeners s3 = (s4, Settled (Fulfilled ()))" and ap: "apart s4 = apart s3"
    by blast
  from ap have same: "currentState s4 = currentState s3" by (simp add: apart_def)
  have "startWithoutUI params s = (s4, Settled (Fulfilled ps))"
    by (simp add: startWithoutUI_def abind_def aseq_def r sub areturn_def)
  with pool_apart [OF p ap] sel same show ?thesis by simp
qed

lemma orchestratorInitialize_any_schedule:
  assumes init: "run (initialize pg) s0 = (s, Fulfilled ())"
      and b: "bound cfg m s" and acc: "accepting m"
      and c: "find (\<lambda>c. Some (color_id c) = Some cid) (colors cfg) = Some c"
      and x: "find (\<lambda>x. Some (strap_id x) = Some sid) (straps cfg) = Some x"
      and e: "find (\<lambda>x. Some (env_id x) = Some eid) (environments cfg) = Some e"
      and params: "map_of params ''color'' = Some cid" "map_of params ''strap'' = Some sid"
        "map_of params ''environment'' = Some eid"
      and run: "runThenSettle sched (orchestratorInitialize pg params) s0 = (s', ps')"
      and settled: "all_settled ps'"
  shows "getState s' = \<lparr> color = Some cid, strap = Some ''selected'',
                          environment = Some eid \<rparr>"
proof -
  from startWithoutUI_floating [OF b acc c x e params] obtain s4 ps
    where r: "startWithoutUI params s = (s4, Settled (Fulfilled ps))"
      and p: "pool (bound cfg m) s4 ps" and sel: "color (currentState s4) = Some cid"
        "environment (currentState s4) = Some eid"
    by blast
  from r have "run (startWithoutUI params) s = (s4, Fulfilled ps)"
    by (simp add: run_def)
  then have "run (orchestratorInitialize pg params) s0 = (s4, Fulfilled ps)"
    by (simp add: orchestratorInitialize_def run_atry run_aseq init)
  with run have "runSchedule sched ps s4 = (s', ps')"
    by (simp add: runThenSettle_def)
  with p have fin: "pool (bound cfg m) s' ps'" "color (currentState s') = color (currentState s4)"
    "environment (currentState s') = environment (currentState s4)"
    using pool_runSchedule by blast+
  from pool_settled [OF fin(1) settled] fin(2,3) sel
  show ?thesis by (simp add: getState_def)
qed

section \<open>Colour changes\<close>

text \<open>
  Claim C1. For every \<open>colorId\<close> among the colours of the configuration, an awaited
  \<open>changeColor(colorId)\<close> that settles successfully, that is, without the \<open>error\<close> event of
  its \<open>catch\<close> block, leaves \<open>getState().color\<close> equal to \<open>colorId\<close> and \<open>getState().strap\<close>
  equal to \<open>selected\<close>, the environment as it was, and the events it emitted are
  \<open>colorChanged(colorId)\<close> followed by \<open>strapChanged('selected')\<close>.
\<close>

theorem changeColor_success:
  assumes present: "colorId \<in> color_id ` set (colors (config s))"
      and settled: "run (changeColor (Some colorId)) s = (s', r)"
      and success: "''error'' \<notin> fst ` set (drop (length (emitted s)) (emitted s'))"
  shows "getState s' = \<lparr> color = Some colorId, strap = Some ''selected'',
                          environment = environment (getState s) \<rparr> \<and>
         drop (length (emitted s)) (emitted s') =
           [(''colorChanged'', PId (Some colorId)), (''strapChanged'', PId (Some ''selected''))]"
proof -
  from present obtain c
    where c: "find (\<lambda>c. Some (color_id c) = Some colorId) (colors (config s)) = Some c"
    by (rule find_color_present)
  from changeColor_settled [OF c settled success] show ?thesis
    by (simp add: getState_def)
qed

text \<open>
  The scenario of the specification: colours red and blue, red the default, and
  \<open>changeColor("blue")\<close>.
\<close>

theorem changeColor_success_witness:
  "''blue'' \<in> color_id ` set (colors (config demo_ready)) \<and>
   ''error'' \<notin> fst ` set (drop (length (emitted demo_ready))
      (emitted (fst (run (changeColor (Some ''blue'')) demo_ready)))) \<and>
   getState (fst (run (changeColor (Some ''blue'')) demo_ready)) =
     \<lparr> color = Some ''blue'', strap = Some ''selected'', environment = Some ''studio'' \<rparr> \<and>
   drop (length (emitted demo_ready))
      (emitted (fst (run (changeColor (Some ''blue'')) demo_ready))) =
     [(''colorChanged'', PId (Some ''blue'')), (''strapChanged'', PId (Some ''selected''))]"
proof -
  have present: "''blue'' \<in> color_id ` set (colors (config demo_ready))"
    by (simp add: demo_ready_state) (simp add: demo_defs)
  have success: "''error'' \<notin> fst ` set (drop (length (emitted demo_ready))
      (emitted (fst (run (changeColor (Some ''blue'')) demo_ready))))"
    by (simp add: demo_blue_run)
  have env: "environment (getState demo_ready) = Some ''studio''"
    by (simp add: getState_def demo_ready_state)
  show ?thesis
    using present success
      changeColor_success [OF present _ success,
        of "snd (run (changeColor (Some ''blue'')) demo_ready)"]
    by (simp add: env)
qed

text \<open>
  Claim C4, as stated: a second \<open>changeColor\<close> with the colour that is already current is a
  no-op that emits no second \<open>colorChanged\<close> or \<open>strapChanged\<close>. \<open>changeColor\<close> has no test
  for the current colour. In the example red is current after the initialization; after
  \<open>changeColor('red')\<close> the second \<open>changeColor('red')\<close> emits both events again.
\<close>

theorem changeColor_again_counterexample:
  "color (getState demo_ready) = Some ''red'' \<and>
   drop (length (emitted demo_ready)) (emitted demo_once) =
     [(''colorChanged'', PId (Some ''red'')), (''strapChanged'', PId (Some ''selected''))] \<and>
   drop (length (emitted demo_once)) (emitted demo_twice) =
     [(''colorChanged'', PId (Some ''red'')), (''strapChanged'', PId (Some ''selected''))]"
  by (simp add: demo_twice_state demo_once_state) (simp add: getState_def demo_ready_state)

text \<open>
  Claim C4, amended. When \<open>changeColor(colorId)\<close> is awaited twice in succession and both
  calls settle successfully, the second call emits \<open>colorChanged(colorId)\<close> and
  \<open>strapChanged('selected')\<close> once more and leaves \<open>getState()\<close> as the first call left it;
  when the three textures of the colour are in the texture cache after the first call, the
  second call asks the viewer for no texture.
\<close>

theorem changeColor_again:
  assumes present: "colorId \<in> color_id ` set (colors (config s))"
      and first: "run (changeColor (Some colorId)) s = (s1, r1)"
      and first_ok: "''error'' \<notin> fst ` set (drop (length (emitted s)) (emitted s1))"
      and cached: "\<forall>c \<in> set (colors (config s)). color_id c = colorId \<longrightarrow>
                     {tex_primary (textures c), tex_accent (textures c),
                      tex_roughness (textures c)} \<subseteq> dom (textureCache s1)"
      and second: "run (changeColor (Some colorId)) s1 = (s2, r2)"
      and second_ok: "''error'' \<notin> fst ` set (drop (length (emitted s1)) (emitted s2))"
  shows "drop (length (emitted s1)) (emitted s2) =
           [(''colorChanged'', PId (Some colorId)), (''strapChanged'', PId (Some ''selected''))] \<and>
         getState s2 = getState s1 \<and>
         loads s2 = loads s1"
proof -
  from present obtain c
    where c: "find (\<lambda>c. Some (color_id c) = Some colorId) (colors (config s)) = Some c"
    by (rule find_color_present)
  note one = changeColor_settled [OF c first first_ok]
  from one c
  have c1: "find (\<lambda>c. Some (color_id c) = Some colorId) (colors (config s1)) = Some c"
    by simp
  note two = changeColor_settled [OF c1 second second_ok]
  from c have "c \<in> set (colors (config s))" and "color_id c = colorId"
    by (auto simp: find_Some_iff in_set_conv_nth)
  with cached obtain t1 t2 t3
    where "textureCache s1 (tex_primary (textures c)) = Some t1"
      and "textureCache s1 (tex_accent (textures c)) = Some t2"
      and "textureCache s1 (tex_roughness (textures c)) = Some t3"
    by (auto simp: dom_def)
  with c1 have "loads (fst (run (textureApply c) (optimistic (Some colorId) s1))) =
      loads (optimistic (Some colorId) s1)"
    by (intro textureApply_cached) (simp_all add: optimistic_def)
  with changeColor_effect [OF c1 second second_ok] have "loads s2 = loads s1"
    by (simp add: optimistic_def)
  with one two show ?thesis
    by (simp add: getState_def)
qed

theorem changeColor_again_witness:
  "''red'' \<in> color_id ` set (colors (config demo_ready)) \<and>
   ''error'' \<notin> fst ` set (drop (length (emitted demo_ready)) (emitted demo_once)) \<and>
   ''error'' \<notin> fst ` set (drop (length (emitted demo_once)) (emitted demo_twice)) \<and>
   drop (length (emitted demo_once)) (emitted demo_twice) =
     [(''colorChanged'', PId (Some ''red'')), (''strapChanged'', PId (Some ''selected''))] \<and>
   getState demo_twice = getState demo_once \<and>
   loads demo_twice = loads demo_once"
proof -
  have present: "''red'' \<in> color_id ` set (colors (config demo_ready))"
    by (simp add: demo_ready_state) (simp add: demo_defs)
  have first: "run (changeColor (Some ''red'')) demo_ready =
      (demo_once, snd (run (changeColor (Some ''red'')) demo_ready))"
    by (simp add: demo_once_def)
  have first_ok: "''error'' \<notin> fst ` set (drop (length (emitted demo_ready)) (emitted demo_once))"
    by (simp add: demo_once_state)
  have cached: "\<forall>c \<in> set (colors (config demo_ready)). color_id c = ''red'' \<longrightarrow>
      {tex_primary (textures c), tex_accent (textures c), tex_roughness (textures c)}
        \<subseteq> dom (textureCache demo_once)"
    by (simp add: demo_once_state) (simp add: demo_ready_state demo_defs)
  have second: "run (changeColor (Some ''red'')) demo_once =
      (demo_twice, snd (run (changeColor (Some ''red'')) demo_once))"
    by (simp add: demo_twice_def)
  have second_ok: "''error'' \<notin> fst ` set (drop (length (emitted demo_once)) (emitted demo_twice))"
    by (simp add: demo_twice_state)
  show ?thesis
    using present first_ok second_ok
      changeColor_again [OF present first first_ok cached second second_ok]
    by blast
qed

text \<open>
  Claim C5. If the texture application of \<open>changeColor(x)\<close> fails with an exception \<open>e\<close> while
  the current colour is \<open>y\<close>, then the awaited call is fulfilled all the same, \<open>getState().color\<close>
  is \<open>y\<close> again, and the events emitted are \<open>colorChanged(x)\<close>, \<open>colorChanged(y)\<close> and an
  \<open>error\<close> event of type \<open>user\<close> that carries \<open>e\<close>.
\<close>

theorem changeColor_rollback:
  assumes known: "find (\<lambda>c. Some (color_id c) = Some x) (colors (config s)) = Some c"
      and current: "color (currentState s) = y"
      and fails: "run (textureApply c) (optimistic (Some x) s) = (s2, Rejected e)"
  shows "\<exists>s'. run (changeColor (Some x)) s = (s', Fulfilled ()) \<and>
           color (getState s') = y \<and>
           drop (length (emitted s)) (emitted s') =
             [(''colorChanged'', PId (Some x)),
              (''colorChanged'', PId y),
              (''error'', PError ''user'' (''Failed to change color to '' @ color_name c)
                            (ErrorObject e))]"
proof -
  note core = textureApply_core [OF fails]
  have "run (changeColor (Some x)) s = (rolledBack c y e s2, Fulfilled ())"
    using known current fails by (simp add: run_changeColor_known)
  moreover have "color (getState (rolledBack c y e s2)) = y"
    by (simp add: rolledBack_def getState_def)
  moreover have "drop (length (emitted s)) (emitted (rolledBack c y e s2)) =
      [(''colorChanged'', PId (Some x)), (''colorChanged'', PId y),
       (''error'', PError ''user'' (''Failed to change color to '' @ color_name c)
                     (ErrorObject e))]"
    using core by (simp add: rolledBack_def optimistic_def)
  ultimately show ?thesis by blast
qed

text \<open>In the example the primary material rejects every texture.\<close>

theorem changeColor_rollback_witness:
  "find (\<lambda>c. Some (color_id c) = Some ''blue'') (colors (config demo_rejecting)) = Some demo_blue \<and>
   color (currentState demo_rejecting) = Some ''red'' \<and>
   snd (run (textureApply demo_blue) (optimistic (Some ''blue'') demo_rejecting)) =
     Rejected (Error ''texture rejected'') \<and>
   (\<exists>s'. run (changeColor (Some ''blue'')) demo_rejecting = (s', Fulfilled ()) \<and>
      color (getState s') = Some ''red'' \<and>
      drop (length (emitted demo_rejecting)) (emitted s') =
        [(''colorChanged'', PId (Some ''blue'')),
         (''colorChanged'', PId (Some ''red'')),
         (''error'', PError ''user'' ''Failed to change color to Blue''
                       (ErrorObject (Error ''texture rejected'')))])"
proof -
  have known: "find (\<lambda>c. Some (color_id c) = Some ''blue'') (colors (config demo_rejecting)) =
      Some demo_blue"
    by (simp add: demo_rejecting_def demo_ready_state) (simp add: demo_defs)
  have current: "color (currentState demo_rejecting) = Some ''red''"
    by (simp add: demo_rejecting_def demo_ready_state)
  have fails: "run (textureApply demo_blue) (optimistic (Some ''blue'') demo_rejecting) =
      (fst (run (textureApply demo_blue) (optimistic (Some ''blue'') demo_rejecting)),
       Rejected (Error ''texture rejected''))"
    using demo_rejecting_fails by (simp add: prod_eq_iff)
  have name: "color_name demo_blue = ''Blue''"
    by (simp add: demo_blue_def)
  show ?thesis
    using known current demo_rejecting_fails changeColor_rollback [OF known current fails]
    by (simp add: name)
qed

text \<open>
  Claim C7. \<open>changeColor\<close>, \<open>changeStrap\<close> and \<open>changeEnvironment\<close> with an identifier that the
  configuration does not have end in their synchronous part, fulfilled, and leave the whole
  engine as it was: the selection is unchanged and nothing is emitted.
\<close>

theorem unknown_id_no_op:
  "(colorId \<notin> Some ` color_id ` set (colors (config s)) \<longrightarrow>
      changeColor colorId s = (s, Settled (Fulfilled ()))) \<and>
   (strapId \<notin> Some ` strap_id ` set (straps (config s)) \<longrightarrow>
      changeStrap strapId s = (s, Settled (Fulfilled ()))) \<and>
   (environmentId \<notin> Some ` env_id ` set (environments (config s)) \<longrightarrow>
      changeEnvironment environmentId s = (s, Settled (Fulfilled ())))"
  by (simp add: find_absent run_changeColor_unknown run_changeStrap_unknown
        run_changeEnvironment_unknown)

theorem unknown_id_no_op_witness:
  "Some ''nonexistent'' \<notin> Some ` color_id ` set (colors (config demo_ready)) \<and>
   Some ''nonexistent'' \<notin> Some ` strap_id ` set (straps (config demo_ready)) \<and>
   Some ''nonexistent'' \<notin> Some ` env_id ` set (environments (config demo_ready)) \<and>
   changeColor (Some ''nonexistent'') demo_ready = (demo_ready, Settled (Fulfilled ())) \<and>
   changeStrap (Some ''nonexistent'') demo_ready = (demo_ready, Settled (Fulfilled ())) \<and>
   changeEnvironment (Some ''nonexistent'') demo_ready = (demo_ready, Settled (Fulfilled ()))"
proof -
  have a: "Some ''nonexistent'' \<notin> Some ` color_id ` set (colors (config demo_ready))"
    by (simp add: demo_ready_state) (simp add: demo_defs)
  have b: "Some ''nonexistent'' \<notin> Some ` strap_id ` set (straps (config demo_ready))"
    by (simp add: demo_ready_state) (simp add: demo_defs)
  have c: "Some ''nonexistent'' \<notin> Some ` env_id ` set (environments (config demo_ready))"
    by (simp add: demo_ready_state) (simp add: demo_defs)
  show ?thesis
    using a b c
      unknown_id_no_op [of "Some ''nonexistent''" demo_ready "Some ''nonexistent''"
        "Some ''nonexistent''"]
    by blast
qed

section \<open>Reset and share links\<close>

text \<open>
  Claim C2. After \<open>reset()\<close> and the change operations it starts have settled, \<open>getState()\<close>
  should be the declared defaults. In the example the declared default strap is \<open>orange\<close>
  and the engine is in its default state. \<open>reset\<close> returns with the strap set to \<open>orange\<close>;
  when the promise of \<open>changeColor\<close> is resumed it sets the strap to \<open>selected\<close>, and that
  is the state after both promises have settled, here with their ticks taken in turn
  (by \<open>reset_any_schedule\<close>, in whatever order).
\<close>

theorem reset_strap_not_default:
  "getState demo_orange =
     \<lparr> color = Some ''red'', strap = Some ''orange'', environment = Some ''studio'' \<rparr> \<and>
   declaredColor (config demo_orange) = Some ''red'' \<and>
   declaredStrap (config demo_orange) = Some ''orange'' \<and>
   declaredEnvironment (config demo_orange) = Some ''studio'' \<and>
   all_settled (snd (thenSettle (concat (replicate 20 [0, 1])) reset demo_orange)) \<and>
   getState (fst (thenSettle (concat (replicate 20 [0, 1])) reset demo_orange)) =
     \<lparr> color = Some ''red'', strap = Some ''selected'', environment = Some ''studio'' \<rparr>"
proof -
  let ?m = "\<lparr> mat_primary = demo_material ''TkaninaMat'',
              mat_secondary = demo_material ''KaiseviMat'',
              mat_accent = demo_material ''Kais'' \<rparr>"
  let ?end = "thenSettle (concat (replicate 20 [0, 1])) reset demo_orange"
  have state: "getState demo_orange =
      \<lparr> color = Some ''red'', strap = Some ''orange'', environment = Some ''studio'' \<rparr>"
    by (simp add: getState_def demo_orange_state)
  have cfg: "config demo_orange = demo_config_orange"
    by (simp add: demo_orange_state)
  have declared: "declaredColor demo_config_orange = Some ''red''"
    "declaredStrap demo_config_orange = Some ''orange''"
    "declaredEnvironment demo_config_orange = Some ''studio''"
    by (simp_all add: demo_config_orange_def demo_defs)
  have b: "bound demo_config_orange ?m demo_orange"
    by (simp add: bound_def demo_orange_state) (simp add: demo_ready_state)
  have c: "find (\<lambda>c. Some (color_id c) = declaredColor demo_config_orange)
      (colors demo_config_orange) = Some demo_red"
    by (simp add: declared) (simp add: demo_config_orange_def demo_defs)
  obtain x where x: "find (\<lambda>x. Some (strap_id x) = declaredStrap demo_config_orange)
      (straps demo_config_orange) = Some x"
    by (simp add: declared) (simp add: demo_config_orange_def demo_defs)
  obtain e where e: "find (\<lambda>x. Some (env_id x) = declaredEnvironment demo_config_orange)
      (environments demo_config_orange) = Some e"
    by (simp add: declared) (simp add: demo_config_orange_def demo_defs)
  have settled: "all_settled (snd ?end)"
    by code_simp
  have "getState (fst ?end) =
      \<lparr> color = declaredColor demo_config_orange, strap = Some ''selected'',
        environment = declaredEnvironment demo_config_orange \<rparr>"
    by (rule reset_any_schedule [OF b demo_accepting c x e _ settled]) simp
  with state cfg declared settled show ?thesis by simp
qed

text \<open>
  Claim C6. The share link of a state should lead back to that state. In the example the
  state shared has the strap \<open>orange\<close> and the link carries \<open>strap=orange\<close>. The page that
  opens the link is embedded with \<open>showUI: false\<close>, so that the orchestrator's listeners are
  the only ones and no widget calls the engine: it initializes its engine, applies the
  three parameters and subscribes its listeners, and after the promises of \<open>changeColor\<close>
  and \<open>changeStrap\<close> have settled the strap is \<open>selected\<close>
  (by \<open>orchestratorInitialize_any_schedule\<close>, in whatever order their ticks are taken).
\<close>

theorem share_link_strap_lost:
  "getState demo_shared =
     \<lparr> color = Some ''red'', strap = Some ''orange'', environment = Some ''studio'' \<rparr> \<and>
   url_params (getShareURL ''https://example.com'' ''/'' demo_shared) =
     [(''color'', ''red''), (''strap'', ''orange''), (''environment'', ''studio'')] \<and>
   all_settled (snd (runThenSettle (concat (replicate 20 [0, 1]))
      (orchestratorInitialize demo_page
         [(''color'', ''red''), (''strap'', ''orange''), (''environment'', ''studio'')])
      (constructor demo_config))) \<and>
   getState (fst (runThenSettle (concat (replicate 20 [0, 1]))
      (orchestratorInitialize demo_page
         [(''color'', ''red''), (''strap'', ''orange''), (''environment'', ''studio'')])
      (constructor demo_config))) =
     \<lparr> color = Some ''red'', strap = Some ''selected'', environment = Some ''studio'' \<rparr>"
proof -
  let ?m = "\<lparr> mat_primary = demo_material ''TkaninaMat'',
              mat_secondary = demo_material ''KaiseviMat'',
              mat_accent = demo_material ''Kais'' \<rparr>"
  let ?params = "[(''color'', ''red''), (''strap'', ''orange''), (''environment'', ''studio'')]"
  let ?end = "runThenSettle (concat (replicate 20 [0, 1]))
      (orchestratorInitialize demo_page ?params) (constructor demo_config)"
  have state: "getState demo_shared =
      \<lparr> color = Some ''red'', strap = Some ''orange'', environment = Some ''studio'' \<rparr>"
    by (simp add: getState_def demo_shared_state)
  have link: "url_params (getShareURL ''https://example.com'' ''/'' demo_shared) = ?params"
    by (simp add: getShareURL_def param_text_def demo_shared_state)
  have b: "bound demo_config ?m demo_ready"
    by (simp add: bound_def demo_ready_state)
  have c: "find (\<lambda>c. Some (color_id c) = Some ''red'') (colors demo_config) = Some demo_red"
    by (simp add: demo_defs)
  obtain x where x: "find (\<lambda>x. Some (strap_id x) = Some ''orange'') (straps demo_config) = Some x"
    by (simp add: demo_defs)
  obtain e where e: "find (\<lambda>x. Some (env_id x) = Some ''studio'') (environments demo_config) = Some e"
    by (simp add: demo_defs)
  have settled: "all_settled (snd ?end)"
    by code_simp
  have "getState (fst ?end) =
      \<lparr> color = Some ''red'', strap = Some ''selected'', environment = Some ''studio'' \<rparr>"
    by (rule orchestratorInitialize_any_schedule
          [OF demo_ready_run b demo_accepting c x e _ _ _ _ settled])
       simp_all
  with state link settled show ?thesis by simp
qed

section \<open>Initialization without the materials\<close>

text \<open>
  Claim C3, as stated: if one of the three material names cannot be resolved against the
  loaded model, \<open>initialize\<close> propagates an error and the engine never signals ready. In the
  example the model has no material for the accent slot; \<open>setupMaterialReferences\<close> logs
  that and returns, \<open>applyInitialConfiguration\<close> skips its work, and \<open>initialize\<close> is
  fulfilled with \<open>isReady\<close> set; the events emitted are \<open>modelLoaded\<close>, from the viewer's
  \<open>load\<close> event, and \<open>initialized\<close>.
\<close>

theorem initialize_without_materials_counterexample:
  "getMaterialByName [demo_material ''TkaninaMat'', demo_material ''KaiseviMat'']
     (name_accent (product_materials demo_config)) = None \<and>
   model (created_viewer demo_page_missing) =
     Some [demo_material ''TkaninaMat'', demo_material ''KaiseviMat''] \<and>
   snd (run (initialize demo_page_missing) (constructor demo_config)) = Fulfilled () \<and>
   isReady (fst (run (initialize demo_page_missing) (constructor demo_config))) \<and>
   emitted (fst (run (initialize demo_page_missing) (constructor demo_config))) =
     [(''modelLoaded'',
       PModelLoaded (Some [demo_material ''TkaninaMat'', demo_material ''KaiseviMat''])),
      (''initialized'', PEngine)]"
proof -
  have library: "library_defined demo_page_missing \<or> library_arrives demo_page_missing"
    by (simp add: demo_page_missing_def demo_page_def)
  have container: "container_present demo_page_missing \<and>
      (container_has_size demo_page_missing \<or> container_gets_size demo_page_missing)"
    by (simp add: demo_page_missing_def demo_page_def)
  have loaded: "model_already_loaded demo_page_missing \<or> model_load demo_page_missing = LoadEvent"
    by (simp add: demo_page_missing_def demo_page_def)
  have model: "model (created_viewer demo_page_missing) =
      Some [demo_material ''TkaninaMat'', demo_material ''KaiseviMat'']"
    by (simp add: demo_page_missing_def demo_page_def)
  have accent: "getMaterialByName [demo_material ''TkaninaMat'', demo_material ''KaiseviMat'']
      (name_accent (product_materials demo_config)) = None"
    by (simp add: getMaterialByName_def demo_defs)
  have cfg: "config (constructor demo_config) = demo_config"
    by (simp add: constructor_def)
  have unset: "materials (constructor demo_config) = None"
    by (simp add: constructor_def)
  have start: "emitted (constructor demo_config) = []"
    by (simp add: constructor_def)
  from accent cfg have missing:
    "getMaterialByName [demo_material ''TkaninaMat'', demo_material ''KaiseviMat'']
       (name_primary (product_materials (config (constructor demo_config)))) = None \<or>
     getMaterialByName [demo_material ''TkaninaMat'', demo_material ''KaiseviMat'']
       (name_secondary (product_materials (config (constructor demo_config)))) = None \<or>
     getMaterialByName [demo_material ''TkaninaMat'', demo_material ''KaiseviMat'']
       (name_accent (product_materials (config (constructor demo_config)))) = None"
    by simp
  from initialize_missing [OF library container loaded model missing unset]
  obtain s' where "run (initialize demo_page_missing) (constructor demo_config) = (s', Fulfilled ())"
    and "isReady s'"
    and "emitted s' =
      [(''modelLoaded'',
        PModelLoaded (Some [demo_material ''TkaninaMat'', demo_material ''KaiseviMat''])),
       (''initialized'', PEngine)]"
    by (auto simp: start)
  with accent model show ?thesis by simp
qed

text \<open>
  Claim C3, amended. If the page, the viewer library and the model load, and one of the
  three material names cannot be resolved against the loaded model, then \<open>initialize\<close>
  does not fail: it is fulfilled, it leaves the material references unset, asks for no
  texture and applies none, and when it settles \<open>isReady\<close> is true and the events emitted
  are \<open>modelLoaded\<close> followed by \<open>initialized\<close>. (The background preload that starts half
  a second later sets \<open>isReady\<close> to false again when it ends.)
\<close>

theorem initialize_without_materials:
  assumes library: "library_defined pg \<or> library_arrives pg"
      and container: "container_present pg \<and> (container_has_size pg \<or> container_gets_size pg)"
      and loaded: "model_already_loaded pg \<or> model_load pg = LoadEvent"
      and model: "model (created_viewer pg) = Some ms"
      and missing:
        "getMaterialByName ms (name_primary (product_materials (config s))) = None \<or>
         getMaterialByName ms (name_secondary (product_materials (config s))) = None \<or>
         getMaterialByName ms (name_accent (product_materials (config s))) = None"
      and unset: "materials s = None"
  shows "\<exists>s'. run (initialize pg) s = (s', Fulfilled ()) \<and>
           isReady s' \<and>
           drop (length (emitted s)) (emitted s') =
             [(''modelLoaded'', PModelLoaded (Some ms)), (''initialized'', PEngine)] \<and>
           materials s' = None \<and> applied s' = applied s \<and> loads s' = loads s"
  using assms by (rule initialize_missing)

theorem initialize_without_materials_witness:
  "(library_defined demo_page_missing \<or> library_arrives demo_page_missing) \<and>
   (container_present demo_page_missing \<and>
      (container_has_size demo_page_missing \<or> container_gets_size demo_page_missing)) \<and>
   (model_already_loaded demo_page_missing \<or> model_load demo_page_missing = LoadEvent) \<and>
   getMaterialByName [demo_material ''TkaninaMat'', demo_material ''KaiseviMat'']
     (name_accent (product_materials (config (constructor demo_config)))) = None \<and>
   materials (constructor demo_config) = None \<and>
   (\<exists>s'. run (initialize demo_page_missing) (constructor demo_config) = (s', Fulfilled ()) \<and>
      isReady s' \<and>
      emitted s' =
        [(''modelLoaded'',
          PModelLoaded (Some [demo_material ''TkaninaMat'', demo_material ''KaiseviMat''])),
         (''initialized'', PEngine)] \<and>
      materials s' = None \<and> applied s' = [] \<and> loads s' = [])"
proof -
  have library: "library_defined demo_page_missing \<or> library_arrives demo_page_missing"
    by (simp add: demo_page_missing_def demo_page_def)
  have container: "container_present demo_page_missing \<and>
      (container_has_size demo_page_missing \<or> container_gets_size demo_page_missing)"
    by (simp add: demo_page_missing_def demo_page_def)
  have loaded: "model_already_loaded demo_page_missing \<or> model_load demo_page_missing = LoadEvent"
    by (simp add: demo_page_missing_def demo_page_def)
  have model: "model (created_viewer demo_page_missing) =
      Some [demo_material ''TkaninaMat'', demo_material ''KaiseviMat'']"
    by (simp add: demo_page_missing_def demo_page_def)
  have accent: "getMaterialByName [demo_material ''TkaninaMat'', demo_material ''KaiseviMat'']
      (name_accent (product_materials (config (constructor demo_config)))) = None"
    by (simp add: getMaterialByName_def demo_defs)
  have unset: "materials (constructor demo_config) = None"
    by (simp add: constructor_def)
  have start: "emitted (constructor demo_config) = [] \<and> applied (constructor demo_config) = [] \<and>
      loads (constructor demo_config) = []"
    by (simp add: constructor_def)
  from accent have missing:
    "getMaterialByName [demo_material ''TkaninaMat'', demo_material ''KaiseviMat'']
       (name_primary (product_materials (config (constructor demo_config)))) = None \<or>
     getMaterialByName [demo_material ''TkaninaMat'', demo_material ''KaiseviMat'']
       (name_secondary (product_materials (config (constructor demo_config)))) = None \<or>
     getMaterialByName [demo_material ''TkaninaMat'', demo_material ''KaiseviMat'']
       (name_accent (product_materials (config (constructor demo_config)))) = None"
    by blast
  show ?thesis
    using library container loaded accent unset
      initialize_without_materials [OF library container loaded model missing unset]
    by (simp add: start)
qed

section \<open>Capability probing\<close>

text \<open>
  Claim C8. \<open>checkARSupport\<close> settles at once and fulfilled for every host. When the page is
  served neither over HTTPS nor from \<open>localhost\<close>, the answer is unsupported with the reason
  \<open>AR requires HTTPS connection\<close>; every unsupported answer carries one of the five reason
  texts of the source; and a window 400 pixels wide is classified as mobile.
\<close>

theorem checkARSupport_fails_closed:
  "\<exists>support. checkARSupport h = (h, Settled (Fulfilled support)) \<and>
     (protocol h \<noteq> ''https:'' \<and> hostname h \<noteq> ''localhost'' \<longrightarrow>
        \<not> supported support \<and> reason support = Some ''AR requires HTTPS connection'') \<and>
     (\<not> supported support \<longrightarrow>
        reason support \<in> Some `
          {''AR requires HTTPS connection'',
           ''AR is only supported on iOS and Android devices'',
           ''AR requires iOS 12 or later'',
           ''AR requires Android 7.0 or later'',
           ''AR not supported by this browser or device''}) \<and>
     (innerWidth h = 400 \<longrightarrow> getDeviceType h = Mobile)"
  by (simp add: checkARSupport_result Let_def getCapabilities_def getDeviceType_def isMobile_def)

theorem checkARSupport_fails_closed_witness:
  "protocol demo_host \<noteq> ''https:'' \<and> hostname demo_host \<noteq> ''localhost'' \<and>
   innerWidth demo_host = 400 \<and>
   (\<exists>support. checkARSupport demo_host = (demo_host, Settled (Fulfilled support)) \<and>
      \<not> supported support \<and> reason support = Some ''AR requires HTTPS connection'') \<and>
   getDeviceType demo_host = Mobile"
proof -
  have insecure: "protocol demo_host \<noteq> ''https:'' \<and> hostname demo_host \<noteq> ''localhost''"
    by (simp add: demo_host_def)
  have width: "innerWidth demo_host = 400"
    by (simp add: demo_host_def)
  show ?thesis
    using insecure width checkARSupport_fails_closed [of demo_host]
    by blast
qed

section \<open>Texture loads that fail\<close>

text \<open>
  Claim C9. When the viewer's \<open>createTexture\<close> rejects for a path that is not in the cache,
  \<open>preloadTexture\<close> and \<open>getTexture\<close> are fulfilled with \<open>null\<close>; the cache is unchanged, so the
  next request for the path calls \<open>createTexture\<close> again; and \<open>applyColorTextures\<close> is
  fulfilled whenever the three materials accept the textures they are given, whatever the
  loads did.
\<close>

theorem texture_load_failure_contained:
  assumes uncached: "textureCache s url = None"
      and viewer: "modelViewer s = Some v"
      and fails: "createTexture_result v (length (loads s)) url = Inl e"
  shows "run (preloadTexture url) s = (s\<lparr>loads := loads s @ [url]\<rparr>, Fulfilled None) \<and>
         run (getTexture url) s = (s\<lparr>loads := loads s @ [url]\<rparr>, Fulfilled None) \<and>
         loads (fst (run (getTexture url) (fst (run (getTexture url) s)))) =
           loads s @ [url, url] \<and>
         (\<forall>c m. materials s = Some m \<and>
                 (\<forall>ch tex. setTexture_throws (mat_primary m) ch tex = None \<and>
                            setTexture_throws (mat_secondary m) ch tex = None \<and>
                            setTexture_throws (mat_accent m) ch tex = None) \<longrightarrow>
                 snd (run (applyColorTextures c) s) = Fulfilled ())"
proof -
  have a: "fetched url s = (s\<lparr>loads := loads s @ [url]\<rparr>, None)"
    using assms by (simp add: fetched_def)
  have b: "loads (fst (fetched url (s\<lparr>loads := loads s @ [url]\<rparr>))) = loads s @ [url, url]"
    using uncached viewer by (simp add: fetched_def split: sum.splits)
  show ?thesis
    using a b by (simp add: run_preloadTexture run_getTexture run_applyColorTextures_accepting)
qed

theorem texture_load_failure_contained_witness:
  "textureCache demo_offline ''blue_primary.jpg'' = None \<and>
   run (preloadTexture ''blue_primary.jpg'') demo_offline =
     (demo_offline\<lparr>loads := loads demo_offline @ [''blue_primary.jpg'']\<rparr>, Fulfilled None) \<and>
   run (getTexture ''blue_primary.jpg'') demo_offline =
     (demo_offline\<lparr>loads := loads demo_offline @ [''blue_primary.jpg'']\<rparr>, Fulfilled None) \<and>
   loads (fst (run (getTexture ''blue_primary.jpg'')
                 (fst (run (getTexture ''blue_primary.jpg'') demo_offline)))) =
     loads demo_offline @ [''blue_primary.jpg'', ''blue_primary.jpg''] \<and>
   snd (run (applyColorTextures demo_blue) demo_offline) = Fulfilled ()"
proof -
  let ?v = "demo_viewer\<lparr> createTexture_result := (\<lambda>n url. Inl (Error ''404 Not Found'')) \<rparr>"
  let ?m = "\<lparr> mat_primary = demo_material ''TkaninaMat'',
              mat_secondary = demo_material ''KaiseviMat'',
              mat_accent = demo_material ''Kais'' \<rparr>"
  have uncached: "textureCache demo_offline ''blue_primary.jpg'' = None"
    by (simp add: demo_offline_def demo_ready_state)
  have viewer: "modelViewer demo_offline = Some ?v"
    by (simp add: demo_offline_def)
  have fails: "createTexture_result ?v (length (loads demo_offline)) ''blue_primary.jpg'' =
      Inl (Error ''404 Not Found'')"
    by simp
  have mats: "materials demo_offline = Some ?m"
    by (simp add: demo_offline_def demo_ready_state)
  have accepts: "\<forall>ch tex. setTexture_throws (mat_primary ?m) ch tex = None \<and>
       setTexture_throws (mat_secondary ?m) ch tex = None \<and>
       setTexture_throws (mat_accent ?m) ch tex = None"
    by (simp add: demo_material_def)
  note main = texture_load_failure_contained [OF uncached viewer fails]
  from main mats accepts have "snd (run (applyColorTextures demo_blue) demo_offline) = Fulfilled ()"
    by blast
  with main uncached show ?thesis by blast
qed

section \<open>Event emission\<close>

text \<open>
  Claim C10, as stated: for every list of subscribed callbacks \<open>notifyListeners\<close> invokes
  each of them, in subscription order. \<open>notifyListeners\<close> iterates over the array that
  \<open>unsubscribe\<close> splices. In the example two callbacks are subscribed to \<open>colorChanged\<close>; the
  first unsubscribes itself when it is called. That moves the second to index 0, which
  \<open>forEach\<close> has passed: the second callback is not invoked.
\<close>

theorem notifyListeners_in_order_counterexample:
  "listenersOf ''colorChanged'' demo_leaving = [demo_leaver, demo_stayer] \<and>
   lid demo_leaver = 10 \<and> lid demo_stayer = 11 \<and>
   delivered demo_leaving = [] \<and>
   delivered (fst (notifyListeners ''colorChanged'' (PId (Some ''blue'')) demo_leaving)) =
     [(10, ''colorChanged'', PId (Some ''blue''))] \<and>
   listenersOf ''colorChanged''
      (fst (notifyListeners ''colorChanged'' (PId (Some ''blue'')) demo_leaving)) = [demo_stayer]"
proof -
  have subscribed: "demo_leaving =
      demo_ready\<lparr>eventListeners := [''colorChanged'' \<mapsto> [demo_leaver, demo_stayer]]\<rparr>"
    by (simp add: demo_leaving_def demo_ready_state)
       (simp add: subscribe_def run_aseq)
  show ?thesis
    by (simp add: subscribed demo_ready_state)
       (simp add: notifyListeners_def call_listener_def unsubscribe_def listenersOf_def
          demo_leaver_def demo_stayer_def aseq_def abind_def atry_def modify_def gets_def
          areturn_def numeral_2_eq_2)
qed

text \<open>
  Claim C10, amended. \<open>notifyListeners\<close> never throws and never waits, whatever the callbacks
  do, and \<open>subscribe\<close> puts the callback at the end of the event's list. When the callbacks
  subscribed to the event neither subscribe nor unsubscribe while they are notified, every
  one of them is invoked, in subscription order, also after one that threw.
\<close>

theorem notifyListeners_in_order:
  "(\<exists>s'. notifyListeners event data s = (s', Settled (Fulfilled ()))) \<and>
   run (subscribe event callback) s =
     (s\<lparr>eventListeners := (eventListeners s)(event \<mapsto> listenersOf event s @ [callback])\<rparr>,
      Fulfilled ()) \<and>
   ((\<forall>cb \<in> set (listenersOf event s). quiet cb data) \<longrightarrow>
      notifyListeners event data s =
        (s\<lparr>emitted := emitted s @ [(event, data)],
           delivered := delivered s @
             map (\<lambda>cb. (lid cb, event, data)) (listenersOf event s)\<rparr>,
         Settled (Fulfilled ())))"
proof -
  have "\<exists>s'. notifyListeners event data s = (s', Settled (Fulfilled ()))"
    using notifyListeners_settled [of event data s] by blast
  moreover have "run (subscribe event callback) s =
     (s\<lparr>eventListeners := (eventListeners s)(event \<mapsto> listenersOf event s @ [callback])\<rparr>,
      Fulfilled ())"
    by (simp add: subscribe_def listenersOf_def run_aseq split: option.splits)
  ultimately show ?thesis
    by (simp add: notifyListeners_quiet)
qed

text \<open>In the example the first callback throws; the second is invoked after it.\<close>

theorem notifyListeners_in_order_witness:
  "listenersOf ''colorChanged'' demo_throwing = [demo_thrower, demo_stayer] \<and>
   react demo_thrower (PId (Some ''blue'')) = [Throw (Error ''callback failed'')] \<and>
   quiet demo_thrower (PId (Some ''blue'')) \<and> quiet demo_stayer (PId (Some ''blue'')) \<and>
   notifyListeners ''colorChanged'' (PId (Some ''blue'')) demo_throwing =
     (demo_throwing
        \<lparr>emitted := emitted demo_throwing @ [(''colorChanged'', PId (Some ''blue''))],
         delivered := [(12, ''colorChanged'', PId (Some ''blue'')),
                       (11, ''colorChanged'', PId (Some ''blue''))]\<rparr>,
      Settled (Fulfilled ()))"
proof -
  have subscribed: "demo_throwing =
      demo_ready\<lparr>eventListeners := [''colorChanged'' \<mapsto> [demo_thrower, demo_stayer]]\<rparr>"
    by (simp add: demo_throwing_def demo_ready_state)
       (simp add: subscribe_def run_aseq)
  have listening: "listenersOf ''colorChanged'' demo_throwing = [demo_thrower, demo_stayer]"
    by (simp add: subscribed listenersOf_def)
  have throws: "react demo_thrower (PId (Some ''blue'')) = [Throw (Error ''callback failed'')]"
    by (simp add: demo_thrower_def)
  have quiet: "\<forall>cb \<in> set (listenersOf ''colorChanged'' demo_throwing).
      quiet cb (PId (Some ''blue''))"
    by (simp add: listening quiet_def demo_thrower_def demo_stayer_def)
  have none: "delivered demo_throwing = []"
    by (simp add: subscribed demo_ready_state)
  have ids: "lid demo_thrower = 12" "lid demo_stayer = 11"
    by (simp_all add: demo_thrower_def demo_stayer_def)
  from notifyListeners_in_order [of "''colorChanged''" "PId (Some ''blue'')" demo_throwing] quiet
  have "notifyListeners ''colorChanged'' (PId (Some ''blue'')) demo_throwing =
     (demo_throwing
        \<lparr>emitted := emitted demo_throwing @ [(''colorChanged'', PId (Some ''blue''))],
         delivered := delivered demo_throwing @
           map (\<lambda>cb. (lid cb, ''colorChanged'', PId (Some ''blue'')))
               (listenersOf ''colorChanged'' demo_throwing)\<rparr>,
      Settled (Fulfilled ()))"
    by blast
  moreover have "quiet demo_thrower (PId (Some ''blue''))" "quiet demo_stayer (PId (Some ''blue''))"
    by (simp_all add: quiet_def demo_thrower_def demo_stayer_def)
  ultimately show ?thesis
    using listening throws none ids by simp
qed

end
